theory Spec2Isabelle
  imports Complex_Main "HOL-Library.Sublist"
begin

section \<open>Text and JSON values\<close>

text \<open>
  The two Lambda handlers of ARCHITECTURE.md are Python; the upload page
  (frontend_backup/src/App.js) is JavaScript. A Python \<open>str\<close> counts code
  points, so a text is modelled as the list of its code points. \<open>ustr\<close> turns an
  Isabelle literal into such a text and \<open>cp\<close> gives the code point of one character,
  as Python's \<open>ord\<close> does.
\<close>

type_synonym str = "nat list"

abbreviation cp :: "char \<Rightarrow> nat" where
  "cp c \<equiv> of_char c"

abbreviation ustr :: "string \<Rightarrow> str" where
  "ustr s \<equiv> map of_char s"

text \<open>
  The values \<open>json.loads\<close> can return. A Python \<open>dict\<close> keeps one value per key
  in insertion order: an association list with distinct keys. A Python \<open>float\<close> is
  an IEEE double; the model keeps the exact decimal value the text denotes. Rounding
  to a double is monotone and leaves 0 and 1 fixed, so comparisons of a parsed
  number with 0 and with 1 come out the same. \<open>NaN\<close>, \<open>Infinity\<close> and
  \<open>-Infinity\<close> are accepted by \<open>json.loads\<close> and are separate values.
\<close>

datatype json =
    JNull
  | JBool bool
  | JInt int
  | JFloat rat
  | JNaN
  | JInfinity
  | JNegInfinity
  | JStr str
  | JArr "json list"
  | JObj "(str \<times> json) list"

text \<open>\<open>d[k] = v\<close> on a dict: an existing key keeps its place and takes the new value.\<close>

fun dict_set :: "(str \<times> json) list \<Rightarrow> str \<Rightarrow> json \<Rightarrow> (str \<times> json) list" where
  "dict_set [] k v = [(k, v)]"
| "dict_set ((k', v') # ms) k v =
     (if k' = k then (k, v) # ms else (k', v') # dict_set ms k v)"

text \<open>
  The exceptions of the handlers. \<open>ClientError\<close> is what a call to an AWS client
  raises.
\<close>

datatype error =
    JSONDecodeError
  | KeyError str
  | TypeError
  | AttributeError
  | ClientError

text \<open>
  \<open>obj[k]\<close> with a string key: a dict is looked up and a missing key raises
  \<open>KeyError\<close>; a list, a string, a number, a boolean and \<open>None\<close> raise
  \<open>TypeError\<close>.
\<close>

fun getitem :: "json \<Rightarrow> str \<Rightarrow> error + json" where
  "getitem (JObj ms) k = (case map_of ms k of None \<Rightarrow> Inl (KeyError k) | Some v \<Rightarrow> Inr v)"
| "getitem _ k = Inl TypeError"

section \<open>The decoder \<open>json.loads\<close>\<close>

text \<open>
  \<open>json.loads\<close> is Python's standard decoder. It is modelled in two passes that
  accept the same texts and build the same values: the text is cut into tokens
  (punctuation, strings, numbers and the literal names, with blanks between tokens
  skipped), then the tokens are assembled by a stack machine. Every way the decoder
  rejects a text is the one exception \<open>JSONDecodeError\<close>. The interpreter also gives
  up on a text nested deeper than its recursion limit; the model puts no bound on
  nesting.
\<close>

datatype token =
    TLBrace | TRBrace | TLBracket | TRBracket | TComma | TColon
  | TString str
  | TAtom json

definition is_ws :: "nat \<Rightarrow> bool" where
  "is_ws c = (c = cp CHR '' '' \<or> c = 9 \<or> c = 10 \<or> c = 13)"

definition is_digit :: "nat \<Rightarrow> bool" where
  "is_digit c = (cp CHR ''0'' \<le> c \<and> c \<le> cp CHR ''9'')"

definition digits_val :: "str \<Rightarrow> nat" where
  "digits_val ds = foldl (\<lambda>a d. 10 * a + (d - cp CHR ''0'')) 0 ds"

definition hex_val :: "nat \<Rightarrow> nat option" where
  "hex_val c =
     (if cp CHR ''0'' \<le> c \<and> c \<le> cp CHR ''9'' then Some (c - cp CHR ''0'')
      else if cp CHR ''a'' \<le> c \<and> c \<le> cp CHR ''f'' then Some (c - cp CHR ''a'' + 10)
      else if cp CHR ''A'' \<le> c \<and> c \<le> cp CHR ''F'' then Some (c - cp CHR ''A'' + 10)
      else None)"

text \<open>The four hexadecimal digits after \<open>\u\<close>.\<close>

definition decode_uXXXX :: "str \<Rightarrow> nat option" where
  "decode_uXXXX cs =
     (case map hex_val (take 4 cs) of
        [Some a, Some b, Some c, Some d] \<Rightarrow> Some (((a * 16 + b) * 16 + c) * 16 + d)
      | _ \<Rightarrow> None)"

text \<open>The one-letter escapes of a JSON string.\<close>

definition backslash :: "nat \<Rightarrow> nat option" where
  "backslash e =
     (if e = cp CHR 0x22 then Some (cp CHR 0x22)
      else if e = cp CHR 0x5C then Some (cp CHR 0x5C)
      else if e = cp CHR ''/'' then Some (cp CHR ''/'')
      else if e = cp CHR ''b'' then Some 8
      else if e = cp CHR ''f'' then Some 12
      else if e = cp CHR ''n'' then Some 10
      else if e = cp CHR ''r'' then Some 13
      else if e = cp CHR ''t'' then Some 9
      else None)"

text \<open>
  \<open>scanstring\<close> reads a string body after its opening quote and returns the decoded
  text and what follows the closing quote. A raw control character is refused (strict
  mode), a \<open>\u\<close> escape of a high surrogate followed by one of a low surrogate is one
  code point.
\<close>

fun scanstring :: "str \<Rightarrow> str \<Rightarrow> (str \<times> str) option" where
  "scanstring acc [] = None"
| "scanstring acc (c # cs) =
     (if c = cp CHR 0x22 then Some (rev acc, cs)
      else if c < 32 then None
      else if c \<noteq> cp CHR 0x5C then scanstring (c # acc) cs
      else (case cs of
              [] \<Rightarrow> None
            | e # cs' \<Rightarrow>
                if e \<noteq> cp CHR ''u'' then
                  (case backslash e of
                     None \<Rightarrow> None
                   | Some ch \<Rightarrow> scanstring (ch # acc) cs')
                else
                  (case decode_uXXXX cs' of
                     None \<Rightarrow> None
                   | Some uni \<Rightarrow>
                       if 0xD800 \<le> uni \<and> uni \<le> 0xDBFF
                          \<and> take 2 (drop 4 cs') = [cp CHR 0x5C, cp CHR ''u'']
                       then
                         (case decode_uXXXX (drop 6 cs') of
                            None \<Rightarrow> None
                          | Some uni2 \<Rightarrow>
                              if 0xDC00 \<le> uni2 \<and> uni2 \<le> 0xDFFF
                              then scanstring
                                     ((0x10000 + (uni - 0xD800) * 1024 + (uni2 - 0xDC00)) # acc)
                                     (drop 10 cs')
                              else scanstring (uni # acc) (drop 4 cs'))
                       else scanstring (uni # acc) (drop 4 cs'))))"

text \<open>
  A number is the longest match of
  \<^verbatim>\<open>(-?(?:0|[1-9]\d*))(\.\d+)?([eE][-+]?\d+)?\<close>. The three groups are matched
  one after the other; a group that does not match is the empty text. The number is an
  \<open>int\<close> when it has neither fraction nor exponent and a \<open>float\<close> otherwise.
\<close>

definition match_integer :: "str \<Rightarrow> str" where
  "match_integer cs =
     (let sg = (if take 1 cs = [cp CHR ''-''] then take 1 cs else []);
          ds = drop (length sg) cs;
          ip = (if take 1 ds = [cp CHR ''0''] then take 1 ds else takeWhile is_digit ds)
      in if ip = [] then [] else sg @ ip)"

definition match_frac :: "str \<Rightarrow> str" where
  "match_frac cs =
     (if take 1 cs = [cp CHR ''.''] \<and> takeWhile is_digit (drop 1 cs) \<noteq> []
      then take 1 cs @ takeWhile is_digit (drop 1 cs) else [])"

definition match_exp :: "str \<Rightarrow> str" where
  "match_exp cs =
     (if take 1 cs = [cp CHR ''e''] \<or> take 1 cs = [cp CHR ''E''] then
        (let sg = (if take 1 (drop 1 cs) = [cp CHR ''+''] \<or> take 1 (drop 1 cs) = [cp CHR ''-'']
                   then take 1 (drop 1 cs) else []);
             ed = takeWhile is_digit (drop (1 + length sg) cs)
         in if ed = [] then [] else take 1 cs @ sg @ ed)
      else [])"

definition parse_int :: "str \<Rightarrow> int" where
  "parse_int s =
     (if take 1 s = [cp CHR ''-''] then - int (digits_val (drop 1 s)) else int (digits_val s))"

definition parse_float :: "str \<Rightarrow> str \<Rightarrow> str \<Rightarrow> rat" where
  "parse_float integer fr ex =
     (let neg = (take 1 integer = [cp CHR ''-'']);
          m = of_nat (digits_val (if neg then drop 1 integer else integer))
              + of_nat (digits_val (drop 1 fr)) / 10 ^ length (drop 1 fr);
          e = parse_int (if take 1 (drop 1 ex) = [cp CHR ''+''] then drop 2 ex else drop 1 ex);
          x = (if e < 0 then m / 10 ^ nat (- e) else m * 10 ^ nat e)
      in if neg then - x else x)"

definition match_number :: "str \<Rightarrow> (json \<times> str) option" where
  "match_number cs =
     (let integer = match_integer cs;
          fr = match_frac (drop (length integer) cs);
          ex = match_exp (drop (length integer + length fr) cs)
      in if integer = [] then None
         else Some (if fr = [] \<and> ex = [] then JInt (parse_int integer)
                    else JFloat (parse_float integer fr ex),
                    drop (length integer + length fr + length ex) cs))"

text \<open>
  What the scanner accepts where a value starts with neither a quote, a brace nor a
  bracket, in the scanner's order.
\<close>

definition scan_atom :: "str \<Rightarrow> (json \<times> str) option" where
  "scan_atom cs =
     (if take 4 cs = ustr ''null'' then Some (JNull, drop 4 cs)
      else if take 4 cs = ustr ''true'' then Some (JBool True, drop 4 cs)
      else if take 5 cs = ustr ''false'' then Some (JBool False, drop 5 cs)
      else (case match_number cs of
              Some r \<Rightarrow> Some r
            | None \<Rightarrow>
                if take 3 cs = ustr ''NaN'' then Some (JNaN, drop 3 cs)
                else if take 8 cs = ustr ''Infinity'' then Some (JInfinity, drop 8 cs)
                else if take 9 cs = ustr ''-Infinity'' then Some (JNegInfinity, drop 9 cs)
                else None))"

lemma scanstring_suffix: "scanstring acc cs = Some (s, rest) \<Longrightarrow> strict_suffix rest cs"
proof (induction acc cs arbitrary: s rest rule: scanstring.induct)
  case (1 acc)
  then show ?case by simp
next
  case (2 acc c cs)
  have up: "strict_suffix rest (drop n cs') \<Longrightarrow> cs = e # cs' \<Longrightarrow> strict_suffix rest (c # cs)"
    for n e cs'
    by (metis suffix_ConsI suffix_drop suffix_order.strict_trans2)
  have cons: "strict_suffix rest xs \<Longrightarrow> strict_suffix rest (x # xs)" for x xs
    by (metis suffix_ConsI suffix_order.order_refl suffix_order.strict_trans2)
  show ?case
  proof (cases "c = cp CHR 0x22")
    case True
    with "2.prems" show ?thesis by (simp add: strict_suffix_def suffix_ConsI)
  next
    case False
    note nq = this
    show ?thesis
    proof (cases "c \<noteq> cp CHR 0x5C")
      case True
      with nq "2.prems" "2.IH"(1) show ?thesis
        by (fastforce split: if_splits intro: cons)
    next
      case False
      then obtain e cs' where cs: "cs = e # cs'"
        using nq "2.prems" by (cases cs) (auto split: if_splits)
      show ?thesis
      proof (cases "e \<noteq> cp CHR ''u''")
        case True
        with nq False cs "2.prems" "2.IH"(2) show ?thesis
          by (fastforce split: if_splits option.splits intro: cons)
      next
        case eu: False
        then obtain uni where u: "decode_uXXXX cs' = Some uni"
          using nq False cs "2.prems" by (auto split: if_splits option.splits)
        have c5: "c = cp CHR 0x5C" using False by simp
        have e5: "e = cp CHR ''u''" using eu by simp
        show ?thesis
        proof (cases "0xD800 \<le> uni \<and> uni \<le> 0xDBFF
                          \<and> take 2 (drop 4 cs') = [cp CHR 0x5C, cp CHR ''u'']")
          case sur: True
          then obtain uni2 where u2: "decode_uXXXX (drop 6 cs') = Some uni2"
            using "2.prems" cs u c5 e5 by (auto split: option.splits)
          show ?thesis
          proof (cases "0xDC00 \<le> uni2 \<and> uni2 \<le> 0xDFFF")
            case True
            with sur u u2 cs c5 e5 "2.prems"
            have "scanstring ((0x10000 + (uni - 0xD800) * 1024 + (uni2 - 0xDC00)) # acc)
                                     (drop 10 cs') = Some (s, rest)" by simp
            from "2.IH"(3) [OF nq _ _ cs _ u sur u2 True this] c5 e5
            have "strict_suffix rest (drop 10 cs')" by simp
            then show ?thesis using cs by (rule up)
          next
            case False
            with sur u u2 cs c5 e5 "2.prems"
            have "scanstring (uni # acc) (drop 4 cs') = Some (s, rest)" by simp
            from "2.IH"(4) [OF nq _ _ cs _ u sur u2 False this] c5 e5
            have "strict_suffix rest (drop 4 cs')" by simp
            then show ?thesis using cs by (rule up)
          qed
        next
          case False
          with u cs c5 e5 "2.prems"
          have "scanstring (uni # acc) (drop 4 cs') = Some (s, rest)"
            by (auto split: if_splits)
          from "2.IH"(5) [OF nq _ _ cs _ u False this] c5 e5
          have "strict_suffix rest (drop 4 cs')" by simp
          then show ?thesis using cs by (rule up)
        qed
      qed
    qed
  qed
qed

lemma match_number_rest:
  assumes "match_number cs = Some (v, rest)"
  shows "length rest < length cs"
proof -
  from assms have i: "match_integer cs \<noteq> []"
    and r: "rest = drop (length (match_integer cs) + length (match_frac (drop (length (match_integer cs)) cs))
        + length (match_exp (drop (length (match_integer cs) + length (match_frac (drop (length (match_integer cs)) cs))) cs))) cs"
    by (auto simp: match_number_def Let_def split: if_splits)
  have "match_integer [] = []" by (simp add: match_integer_def)
  with i have "cs \<noteq> []" by auto
  moreover from i have "0 < length (match_integer cs)" by simp
  ultimately show ?thesis unfolding r by (cases cs) auto
qed

lemma scan_atom_rest: "scan_atom cs = Some (v, rest) \<Longrightarrow> length rest < length cs"
  unfolding scan_atom_def
  by (cases cs) (auto split: if_splits option.splits dest: match_number_rest)

text \<open>Cutting a text into tokens. Blanks are space, tab, line feed and carriage return.\<close>

function lex :: "str \<Rightarrow> token list option" where
  "lex [] = Some []"
| "lex (c # cs) =
     (if is_ws c then lex cs
      else if c = cp CHR ''{'' then map_option ((#) TLBrace) (lex cs)
      else if c = cp CHR ''}'' then map_option ((#) TRBrace) (lex cs)
      else if c = cp CHR ''['' then map_option ((#) TLBracket) (lex cs)
      else if c = cp CHR '']'' then map_option ((#) TRBracket) (lex cs)
      else if c = cp CHR '','' then map_option ((#) TComma) (lex cs)
      else if c = cp CHR '':'' then map_option ((#) TColon) (lex cs)
      else if c = cp CHR 0x22 then
        (case scanstring [] cs of
           None \<Rightarrow> None
         | Some (s, rest) \<Rightarrow> map_option ((#) (TString s)) (lex rest))
      else
        (case scan_atom (c # cs) of
           None \<Rightarrow> None
         | Some (v, rest) \<Rightarrow> map_option ((#) (TAtom v)) (lex rest)))"
  by pat_completeness auto

termination
proof (relation "measure length")
  show "wf (measure length)" by simp
next
  fix c cs x2 x y
  assume "scanstring [] cs = Some x2" and "(x, y) = x2"
  then have "scanstring [] cs = Some (x, y)" by simp
  from suffix_length_less [OF scanstring_suffix [OF this]]
  show "(y, c # cs) \<in> measure length" by simp
next
  fix c cs x2 x y
  assume "scan_atom (c # cs) = Some x2" and "(x, y) = x2"
  then have "scan_atom (c # cs) = Some (x, y)" by simp
  from scan_atom_rest [OF this] show "(y, c # cs) \<in> measure length" by simp
qed simp_all

text \<open>
  Assembling the tokens. A frame is an open container: an array with the elements
  read so far (latest first), an object with its members, or an object whose last key
  waits for its value. \<open>expect\<close> says which token may come next.
\<close>

datatype frame =
    FArr "json list"
  | FObj "(str \<times> json) list"
  | FKey "(str \<times> json) list" str

datatype expect = Value | ValueOrClose | KeyOrClose | Key | Colon | CommaOrClose | End json

text \<open>A finished value goes into the innermost open container, or is the result.\<close>

fun complete :: "json \<Rightarrow> frame list \<Rightarrow> (expect \<times> frame list) option" where
  "complete v [] = Some (End v, [])"
| "complete v (FArr es # st) = Some (CommaOrClose, FArr (v # es) # st)"
| "complete v (FKey ms k # st) = Some (CommaOrClose, FObj (dict_set ms k v) # st)"
| "complete v (FObj ms # st) = None"

fun begin_value :: "frame list \<Rightarrow> token \<Rightarrow> (expect \<times> frame list) option" where
  "begin_value st TLBracket = Some (ValueOrClose, FArr [] # st)"
| "begin_value st TLBrace = Some (KeyOrClose, FObj [] # st)"
| "begin_value st (TString s) = complete (JStr s) st"
| "begin_value st (TAtom v) = complete v st"
| "begin_value st _ = None"

fun step :: "expect \<Rightarrow> frame list \<Rightarrow> token \<Rightarrow> (expect \<times> frame list) option" where
  "step Value st t = begin_value st t"
| "step ValueOrClose st t =
     (case (st, t) of
        (FArr es # st', TRBracket) \<Rightarrow> complete (JArr (rev es)) st'
      | _ \<Rightarrow> begin_value st t)"
| "step KeyOrClose st t =
     (case (st, t) of
        (FObj ms # st', TRBrace) \<Rightarrow> complete (JObj ms) st'
      | (FObj ms # st', TString k) \<Rightarrow> Some (Colon, FKey ms k # st')
      | _ \<Rightarrow> None)"
| "step Key st t =
     (case (st, t) of
        (FObj ms # st', TString k) \<Rightarrow> Some (Colon, FKey ms k # st')
      | _ \<Rightarrow> None)"
| "step Colon st t = (case t of TColon \<Rightarrow> Some (Value, st) | _ \<Rightarrow> None)"
| "step CommaOrClose st t =
     (case (st, t) of
        (FArr es # st', TComma) \<Rightarrow> Some (Value, st)
      | (FArr es # st', TRBracket) \<Rightarrow> complete (JArr (rev es)) st'
      | (FObj ms # st', TComma) \<Rightarrow> Some (Key, st)
      | (FObj ms # st', TRBrace) \<Rightarrow> complete (JObj ms) st'
      | _ \<Rightarrow> None)"
| "step (End v) st t = None"

fun run :: "expect \<Rightarrow> frame list \<Rightarrow> token list \<Rightarrow> json option" where
  "run e st [] = (case e of End v \<Rightarrow> Some v | _ \<Rightarrow> None)"
| "run e st (t # ts) =
     (case step e st t of None \<Rightarrow> None | Some (e', st') \<Rightarrow> run e' st' ts)"

definition json_loads :: "str \<Rightarrow> error + json" where
  "json_loads s =
     (case lex s of
        None \<Rightarrow> Inl JSONDecodeError
      | Some ts \<Rightarrow>
          (case run Value [] ts of
             None \<Rightarrow> Inl JSONDecodeError
           | Some v \<Rightarrow> Inr v))"

section \<open>The analyzeImage handler\<close>

text \<open>
  ARCHITECTURE.md, section 3.2, \<open>lambda_handler\<close>, lines 241 to 288: what the handler
  does with \<open>ai_response\<close>, the text the model returned. The lines before read the
  request, fetch the object and call the model. The clock readings, the request
  identifier, the object reference and the CloudWatch client come from outside and
  are the fields of \<open>env\<close>: the context object is taken to have the
  \<open>request_id\<close> attribute that the handler reads, and \<open>put_metric_data\<close> returns the
  exception the call raises, or \<open>None\<close> when it returns.
  \<^verbatim>\<open>
    ai_response = response['output']['message']['content'][0]['text']
    analysis = json.loads(ai_response)
    latency_ms = (datetime.now() - start_time).total_seconds() * 1000
    print(json.dumps({'requestId': context.request_id, 'bucket': bucket, 'key': key,
        'model': 'claude-3-5-sonnet', 'latency': latency_ms,
        'verdict': analysis['verdict'], 'confidence': analysis['confidence']}))
    cloudwatch.put_metric_data(Namespace='ClaimsImageLabeler', MetricData=[...])
    return {'statusCode': 200, 'body': json.dumps(analysis)}
  \<close>
  The body of a response is kept as the value that \<open>json.dumps\<close> writes out.
\<close>

record response =
  statusCode :: nat
  body :: json

record env =
  request_id :: str
  bucket :: json
  key :: json
  start_time :: rat
  now :: rat
  put_metric_data :: "str \<Rightarrow> json \<Rightarrow> error option"

text \<open>The dict that line 249 prints; its values are evaluated in the order written.\<close>

definition log_entry :: "env \<Rightarrow> json \<Rightarrow> error + json" where
  "log_entry env analysis =
     (let latency_ms = (now env - start_time env) * 1000 in
      case getitem analysis (ustr ''verdict'') of
        Inl e \<Rightarrow> Inl e
      | Inr verdict \<Rightarrow>
          (case getitem analysis (ustr ''confidence'') of
             Inl e \<Rightarrow> Inl e
           | Inr confidence \<Rightarrow>
               Inr (JObj [(ustr ''requestId'', JStr (request_id env)),
                          (ustr ''bucket'', bucket env),
                          (ustr ''key'', key env),
                          (ustr ''model'', JStr (ustr ''claude-3-5-sonnet'')),
                          (ustr ''latency'', JFloat latency_ms),
                          (ustr ''verdict'', verdict),
                          (ustr ''confidence'', confidence)])))"

text \<open>The \<open>MetricData\<close> argument of line 260.\<close>

definition metric_data :: "env \<Rightarrow> json \<Rightarrow> error + json" where
  "metric_data env analysis =
     (let latency_ms = (now env - start_time env) * 1000 in
      case getitem analysis (ustr ''verdict'') of
        Inl e \<Rightarrow> Inl e
      | Inr verdict \<Rightarrow>
          (case getitem analysis (ustr ''confidence'') of
             Inl e \<Rightarrow> Inl e
           | Inr confidence \<Rightarrow>
               Inr (JArr
                 [JObj [(ustr ''MetricName'', JStr (ustr ''Verdict'')),
                        (ustr ''Value'', JInt 1),
                        (ustr ''Dimensions'',
                           JArr [JObj [(ustr ''Name'', JStr (ustr ''VerdictType'')),
                                       (ustr ''Value'', verdict)]])],
                  JObj [(ustr ''MetricName'', JStr (ustr ''Confidence'')),
                        (ustr ''Value'', confidence),
                        (ustr ''Dimensions'',
                           JArr [JObj [(ustr ''Name'', JStr (ustr ''Verdict'')),
                                       (ustr ''Value'', verdict)]])],
                  JObj [(ustr ''MetricName'', JStr (ustr ''Latency'')),
                        (ustr ''Value'', JFloat latency_ms),
                        (ustr ''Unit'', JStr (ustr ''Milliseconds''))]])))"

definition lambda_handler_analyze :: "env \<Rightarrow> str \<Rightarrow> error + response" where
  "lambda_handler_analyze env ai_response =
     (case json_loads ai_response of
        Inl e \<Rightarrow> Inl e
      | Inr analysis \<Rightarrow>
          (case log_entry env analysis of
             Inl e \<Rightarrow> Inl e
           | Inr printed \<Rightarrow>
               (case metric_data env analysis of
                  Inl e \<Rightarrow> Inl e
                | Inr md \<Rightarrow>
                    (case put_metric_data env (ustr ''ClaimsImageLabeler'') md of
                       Some e \<Rightarrow> Inl e
                     | None \<Rightarrow> Inr \<lparr>statusCode = 200, body = analysis\<rparr>))))"

text \<open>A CloudWatch client whose call returns, whatever it is given.\<close>

definition cloudwatch_accepts :: "str \<Rightarrow> json \<Rightarrow> error option" where
  "cloudwatch_accepts namespace md = None"

text \<open>Two invocations that differ in everything but the model's reply.\<close>

definition env0 :: env where
  "env0 = \<lparr>request_id = ustr ''req-1'', bucket = JStr (ustr ''claims-images-bucket''),
           key = JStr (ustr ''uploads/12345-vehicle_damage.jpg''),
           start_time = 0, now = 2, put_metric_data = cloudwatch_accepts\<rparr>"

definition env1 :: env where
  "env1 = \<lparr>request_id = ustr ''req-2'', bucket = JStr (ustr ''other-bucket''),
           key = JStr (ustr ''uploads/67890-roof.png''),
           start_time = 10, now = 15, put_metric_data = cloudwatch_accepts\<rparr>"

section \<open>The Verdict contract of the specification\<close>

text \<open>
  Section 3 of the specification: \<open>verdict\<close> is one of three literals, \<open>confidence\<close>
  is a number in the closed interval from 0 to 1, \<open>hints\<close> is a sequence of at most
  six strings, each non-empty after trimming. Blanks are the ASCII ones.
\<close>

definition is_space :: "nat \<Rightarrow> bool" where
  "is_space c = (c = 32 \<or> (9 \<le> c \<and> c \<le> 13))"

definition trim :: "str \<Rightarrow> str" where
  "trim s = rev (dropWhile is_space (rev (dropWhile is_space s)))"

definition verdict_literals :: "str list" where
  "verdict_literals = [ustr ''AI_GENERATED'', ustr ''LIKELY_REAL'', ustr ''INCONCLUSIVE'']"

definition verdict_ok :: "json \<Rightarrow> bool" where
  "verdict_ok r =
     (case getitem r (ustr ''verdict'') of
        Inr (JStr s) \<Rightarrow> s \<in> set verdict_literals
      | _ \<Rightarrow> False)"

definition confidence_ok :: "json \<Rightarrow> bool" where
  "confidence_ok r =
     (case getitem r (ustr ''confidence'') of
        Inr (JInt i) \<Rightarrow> 0 \<le> i \<and> i \<le> 1
      | Inr (JFloat x) \<Rightarrow> 0 \<le> x \<and> x \<le> 1
      | _ \<Rightarrow> False)"

definition hint_ok :: "json \<Rightarrow> bool" where
  "hint_ok h = (case h of JStr s \<Rightarrow> trim s \<noteq> [] | _ \<Rightarrow> False)"

definition hints_ok :: "json \<Rightarrow> bool" where
  "hints_ok r =
     (case getitem r (ustr ''hints'') of
        Inr (JArr hs) \<Rightarrow> length hs \<le> 6 \<and> list_all hint_ok hs
      | _ \<Rightarrow> False)"

definition verdict_contract :: "json \<Rightarrow> bool" where
  "verdict_contract r = (verdict_ok r \<and> confidence_ok r \<and> hints_ok r)"

section \<open>The generatePresignedUrl handler\<close>

text \<open>
  ARCHITECTURE.md, section 3.1, \<open>lambda_handler\<close>, lines 101 to 132.
  \<^verbatim>\<open>
    body = json.loads(event['body'])
    file_name = body['fileName']
    file_type = body['fileType']
    if not file_type.startswith('image/'):
        return error_response(400, 'Invalid file type')
    key = f"uploads/{uuid.uuid4()}-{file_name}"
    url = s3_client.generate_presigned_url('put_object',
        Params={'Bucket': BUCKET_NAME, 'Key': key, 'ContentType': file_type},
        ExpiresIn=900)
    return {'statusCode': 200,
            'body': json.dumps({'url': url, 'key': key, 'bucket': BUCKET_NAME})}
  \<close>
  The source uses \<open>BUCKET_NAME\<close> and \<open>error_response\<close> without defining them; the
  identifier that \<open>uuid.uuid4()\<close> draws, the text Python writes for a file name that
  is not a string, and the signing call of the S3 client come from outside. They are
  the fields of \<open>presign_env\<close>. \<open>json.loads\<close> of a value that is not a text and
  \<open>startswith\<close> on a value that is not a string raise.
\<close>

record presign_env =
  BUCKET_NAME :: str
  error_response :: "nat \<Rightarrow> str \<Rightarrow> response"
  uuid4 :: str
  py_str :: "json \<Rightarrow> str"
  generate_presigned_url :: "str \<Rightarrow> str \<Rightarrow> str \<Rightarrow> nat \<Rightarrow> error + str"

text \<open>What an f-string writes for a value: a string as it is.\<close>

definition format_value :: "presign_env \<Rightarrow> json \<Rightarrow> str" where
  "format_value env v = (case v of JStr s \<Rightarrow> s | _ \<Rightarrow> py_str env v)"

definition lambda_handler_presign :: "presign_env \<Rightarrow> json \<Rightarrow> error + response" where
  "lambda_handler_presign env event =
     (case getitem event (ustr ''body'') of
        Inl e \<Rightarrow> Inl e
      | Inr b \<Rightarrow>
          (case (case b of JStr s \<Rightarrow> json_loads s | _ \<Rightarrow> Inl TypeError) of
             Inl e \<Rightarrow> Inl e
           | Inr req \<Rightarrow>
               (case getitem req (ustr ''fileName'') of
                  Inl e \<Rightarrow> Inl e
                | Inr file_name \<Rightarrow>
                    (case getitem req (ustr ''fileType'') of
                       Inl e \<Rightarrow> Inl e
                     | Inr ft \<Rightarrow>
                         (case ft of
                            JStr file_type \<Rightarrow>
                              if \<not> prefix (ustr ''image/'') file_type
                              then Inr (error_response env 400 (ustr ''Invalid file type''))
                              else
                                (let object_key = ustr ''uploads/'' @ uuid4 env @ ustr ''-''
                                             @ format_value env file_name
                                 in case generate_presigned_url env (BUCKET_NAME env) object_key
                                           file_type 900 of
                                      Inl e \<Rightarrow> Inl e
                                    | Inr url \<Rightarrow>
                                        Inr \<lparr>statusCode = 200,
                                             body = JObj [(ustr ''url'', JStr url),
                                                          (ustr ''key'', JStr object_key),
                                                          (ustr ''bucket'',
                                                             JStr (BUCKET_NAME env))]\<rparr>)
                          | _ \<Rightarrow> Inl AttributeError)))))"

text \<open>
  Modelled from the spec: \<open>error_response\<close> is called at line 109 and defined nowhere
  in the source. Section 6 of the specification says the call fails with a 400-class
  error and section 7 that an error is shown as a short message: this helper builds
  the response with the status code and the message it is given.
\<close>

definition error_response_spec :: "nat \<Rightarrow> str \<Rightarrow> response" where
  "error_response_spec code message =
     \<lparr>statusCode = code, body = JObj [(ustr ''error'', JStr message)]\<rparr>"

text \<open>A signing call that returns a link made of the bucket and the key.\<close>

definition sign_put :: "str \<Rightarrow> str \<Rightarrow> str \<Rightarrow> nat \<Rightarrow> error + str" where
  "sign_put b k content_type expires = Inr (ustr ''https://'' @ b @ ustr ''/'' @ k)"

text \<open>Stands for \<open>str()\<close> of a value that is not a string; the requests below name
  their files by strings.\<close>

definition python_str :: "json \<Rightarrow> str" where
  "python_str v = ustr ''None''"

definition penv0 :: presign_env where
  "penv0 = \<lparr>BUCKET_NAME = ustr ''claims-images-bucket'', error_response = error_response_spec,
            uuid4 = ustr ''12345'', py_str = python_str, generate_presigned_url = sign_put\<rparr>"

section \<open>The upload page\<close>

text \<open>
  frontend_backup/src/App.js. The component state is the four \<open>useState\<close> cells;
  the cell \<open>file\<close>, here \<open>selectedFile\<close>, is \<open>null\<close> or a \<open>File\<close>, which is
  truthy. \<open>handleUpload\<close> is given as the
  state it leaves once its promise has settled; the 800 ms that \<open>mockAnalyze\<close> waits
  are not modelled.
  \<^verbatim>\<open>
  async function mockAnalyze() {
    await new Promise((r) => setTimeout(r, 800));
    return { summary: "No anomalies detected (mock).",
             hints: ["Lighting consistent.", "No texture repetition.", "No tampering found."] };
  }
  const handleUpload = async () => {
    try {
      if (!file) return;
      setUploading(true);
      setError("");
      const analysis = await mockAnalyze();
      setResult(analysis);
    } catch (e) {
      setError("Error during upload or analysis.");
    } finally {
      setUploading(false);
    }
  };
  \<close>
\<close>

datatype js_file = File (name: str) (mime: str)

record app_state =
  selectedFile :: "js_file option"
  isUploading :: bool
  result :: "json option"
  error :: str

text \<open>The promise of \<open>mockAnalyze\<close> always resolves, with this object.\<close>

definition mockAnalyze :: json where
  "mockAnalyze =
     JObj [(ustr ''summary'', JStr (ustr ''No anomalies detected (mock).'')),
           (ustr ''hints'', JArr [JStr (ustr ''Lighting consistent.''),
                                  JStr (ustr ''No texture repetition.''),
                                  JStr (ustr ''No tampering found.'')])]"

text \<open>
  Nothing in the \<open>try\<close> block throws, so the \<open>catch\<close> clause is never entered. The
  \<open>finally\<close> clause runs on every path, the early \<open>return\<close> included.
\<close>

definition handleUpload :: "app_state \<Rightarrow> app_state" where
  "handleUpload s =
     (let tried = (case selectedFile s of
                     None \<Rightarrow> s
                   | Some f \<Rightarrow> s\<lparr>isUploading := True, error := [], result := Some mockAnalyze\<rparr>)
      in tried\<lparr>isUploading := False\<rparr>)"

section \<open>Replies that contain a JSON object\<close>

text \<open>
  A reply contains an embedded JSON object when some contiguous part of it is the text
  of a JSON object, that is, decodes to one. \<open>sublists\<close> lists the contiguous parts.
\<close>

definition is_object :: "error + json \<Rightarrow> bool" where
  "is_object r = (case r of Inr (JObj ms) \<Rightarrow> True | _ \<Rightarrow> False)"

definition contains_json_object :: "str \<Rightarrow> bool" where
  "contains_json_object raw = list_ex (\<lambda>sub. is_object (json_loads sub)) (sublists raw)"

section \<open>Facts about the decoder\<close>

text \<open>
  The text of an object ends in a closing brace, so a text that decodes to an object has
  one: the scanners hand back a suffix of what they are given, a closing-brace token
  comes from a closing brace, and the stack machine returns an object only at such a
  token.
\<close>

lemma match_number_suffix: "match_number cs = Some (v, rest) \<Longrightarrow> suffix rest cs"
  by (auto simp: match_number_def Let_def suffix_drop split: if_splits)

lemma match_number_scalar: "match_number cs = Some (v, rest) \<Longrightarrow> v \<noteq> JObj ms"
  by (auto simp: match_number_def Let_def split: if_splits)

lemma scan_atom_suffix: "scan_atom cs = Some (v, rest) \<Longrightarrow> suffix rest cs"
  unfolding scan_atom_def
  by (auto split: if_splits option.splits simp: suffix_drop dest: match_number_suffix)

lemma scan_atom_scalar: "scan_atom cs = Some (v, rest) \<Longrightarrow> v \<noteq> JObj ms"
  unfolding scan_atom_def
  by (auto split: if_splits option.splits dest: match_number_scalar)


lemma lex_tokens:
  "lex s = Some ts \<Longrightarrow>
     (TRBrace \<in> set ts \<longrightarrow> cp CHR ''}'' \<in> set s) \<and> (\<forall>ms. TAtom (JObj ms) \<notin> set ts)"
proof (induction s arbitrary: ts rule: lex.induct)
  case 1
  then show ?case by simp
next
  case (2 c cs)
  let ?P = "\<lambda>s ts. (TRBrace \<in> set ts \<longrightarrow> cp CHR ''}'' \<in> set s)
                    \<and> (\<forall>ms. TAtom (JObj ms) \<notin> set ts)"
  have keep: "?P cs ts' \<Longrightarrow> ?P (c # cs) ts'" for ts'
    by auto
  have push: "?P rest ts' \<Longrightarrow> set rest \<subseteq> set (c # cs) \<Longrightarrow> T = TRBrace \<longrightarrow> c = cp CHR ''}''
                \<Longrightarrow> \<forall>ms. T \<noteq> TAtom (JObj ms) \<Longrightarrow> ?P (c # cs) (T # ts')" for rest ts' T
    by auto
  have tl: "set cs \<subseteq> set (c # cs)" by auto
  show ?case
  proof (cases "is_ws c")
    case True
    with "2.prems" have "lex cs = Some ts" by simp
    from "2.IH"(1) [OF True this] show ?thesis by (rule keep)
  next
    case ws: False
    show ?thesis
    proof (cases "c = cp CHR ''{''")
      case True
      with ws  "2.prems" obtain ts' where l: "lex cs = Some ts'" and ts: "ts = TLBrace # ts'"
        by auto
      from "2.IH"(2) [OF ws  True l] tl True show ?thesis
        unfolding ts by (intro push) simp_all
    next
      case n0: False
      show ?thesis
      proof (cases "c = cp CHR ''}''")
        case True
        with ws n0 "2.prems" obtain ts' where l: "lex cs = Some ts'" and ts: "ts = TRBrace # ts'"
          by auto
        from "2.IH"(3) [OF ws n0 True l] tl True show ?thesis
          unfolding ts by (intro push) simp_all
      next
        case n1: False
        show ?thesis
        proof (cases "c = cp CHR ''[''")
          case True
          with ws n0 n1 "2.prems" obtain ts' where l: "lex cs = Some ts'" and ts: "ts = TLBracket # ts'"
            by auto
          from "2.IH"(4) [OF ws n0 n1 True l] tl True show ?thesis
            unfolding ts by (intro push) simp_all
        next
          case n2: False
          show ?thesis
          proof (cases "c = cp CHR '']''")
            case True
            with ws n0 n1 n2 "2.prems" obtain ts' where l: "lex cs = Some ts'" and ts: "ts = TRBracket # ts'"
              by auto
            from "2.IH"(5) [OF ws n0 n1 n2 True l] tl True show ?thesis
              unfolding ts by (intro push) simp_all
          next
            case n3: False
            show ?thesis
            proof (cases "c = cp CHR '',''")
              case True
              with ws n0 n1 n2 n3 "2.prems" obtain ts' where l: "lex cs = Some ts'" and ts: "ts = TComma # ts'"
                by auto
              from "2.IH"(6) [OF ws n0 n1 n2 n3 True l] tl True show ?thesis
                unfolding ts by (intro push) simp_all
            next
              case n4: False
              show ?thesis
              proof (cases "c = cp CHR '':''")
                case True
                with ws n0 n1 n2 n3 n4 "2.prems" obtain ts' where l: "lex cs = Some ts'" and ts: "ts = TColon # ts'"
                  by auto
                from "2.IH"(7) [OF ws n0 n1 n2 n3 n4 True l] tl True show ?thesis
                  unfolding ts by (intro push) simp_all
              next
                case n5: False
                show ?thesis
                proof (cases "c = cp CHR 0x22")
                  case True
                  with ws n0 n1 n2 n3 n4 n5 "2.prems" obtain str rest ts' where
                    sc: "scanstring [] cs = Some (str, rest)" and l: "lex rest = Some ts'"
                    and ts: "ts = TString str # ts'"
                    by (auto split: option.splits)
                  from strict_suffix_set_subset [OF scanstring_suffix [OF sc]]
                  have "set rest \<subseteq> set (c # cs)"
                    by auto
                  with "2.IH"(8) [OF ws n0 n1 n2 n3 n4 n5 True sc refl l] show ?thesis
                    unfolding ts by (intro push) simp_all
                next
                  case False
                  with ws n0 n1 n2 n3 n4 n5 "2.prems" obtain v rest ts' where
                    sc: "scan_atom (c # cs) = Some (v, rest)" and l: "lex rest = Some ts'"
                    and ts: "ts = TAtom v # ts'"
                    by (auto split: option.splits)
                  from scan_atom_suffix [OF sc] have "set rest \<subseteq> set (c # cs)"
                    by (rule set_mono_suffix)
                  with "2.IH"(9) [OF ws n0 n1 n2 n3 n4 n5 False sc refl l] scan_atom_scalar [OF sc] show ?thesis
                    unfolding ts by (intro push) simp_all
                qed
              qed
            qed
          qed
        qed
      qed
    qed
  qed
qed

lemma complete_End: "complete v st = Some (End w, st') \<Longrightarrow> w = v"
  by (cases "(v, st)" rule: complete.cases) auto

lemma begin_value_End:
  "begin_value st t = Some (End (JObj ms), st') \<Longrightarrow> t = TAtom (JObj ms)"
  by (cases "(st, t)" rule: begin_value.cases) (auto dest: complete_End)

lemma step_End:
  "step e st t = Some (End (JObj ms), st') \<Longrightarrow> t = TRBrace \<or> t = TAtom (JObj ms)"
  by (cases e)
     (auto split: list.splits frame.splits token.splits dest: complete_End begin_value_End)

lemma run_object:
  "run e st ts = Some (JObj ms) \<Longrightarrow>
     (ts = [] \<and> e = End (JObj ms)) \<or> TRBrace \<in> set ts \<or> TAtom (JObj ms) \<in> set ts"
proof (induction ts arbitrary: e st)
  case Nil
  then show ?case by (cases e) auto
next
  case (Cons t ts)
  from Cons.prems obtain e' st' where
    s: "step e st t = Some (e', st')" and r: "run e' st' ts = Some (JObj ms)"
    by (auto split: option.splits)
  from Cons.IH [OF r] show ?case
  proof (elim disjE conjE)
    assume "ts = []" "e' = End (JObj ms)"
    with s have "step e st t = Some (End (JObj ms), st')" by simp
    from step_End [OF this] show ?thesis by auto
  qed auto
qed

lemma json_loads_object:
  assumes "json_loads s = Inr (JObj ms)"
  shows "cp CHR ''}'' \<in> set s"
proof -
  from assms obtain ts where l: "lex s = Some ts" and r: "run Value [] ts = Some (JObj ms)"
    by (auto simp: json_loads_def split: option.splits)
  from run_object [OF r] lex_tokens [OF l] show ?thesis by auto
qed

lemma json_loads_error: "json_loads s = Inl e \<Longrightarrow> e = JSONDecodeError"
  by (auto simp: json_loads_def split: option.splits)

lemma contains_json_object_iff:
  "contains_json_object raw \<longleftrightarrow> (\<exists>sub ms. sublist sub raw \<and> json_loads sub = Inr (JObj ms))"
proof
  assume "contains_json_object raw"
  then obtain sub where "sublist sub raw" and "is_object (json_loads sub)"
    by (auto simp: contains_json_object_def list_ex_iff)
  then show "\<exists>sub ms. sublist sub raw \<and> json_loads sub = Inr (JObj ms)"
    by (auto simp: is_object_def split: sum.splits json.splits)
next
  assume "\<exists>sub ms. sublist sub raw \<and> json_loads sub = Inr (JObj ms)"
  then obtain sub ms where "sub \<in> set (sublists raw)" and "json_loads sub = Inr (JObj ms)"
    by auto
  moreover from this have "is_object (json_loads sub)"
    by (simp add: is_object_def)
  ultimately show "contains_json_object raw"
    unfolding contains_json_object_def list_ex_iff by blast
qed

lemma no_brace_no_object: "cp CHR ''}'' \<notin> set raw \<Longrightarrow> \<not> contains_json_object raw"
  unfolding contains_json_object_iff
  using json_loads_object set_mono_sublist by blast

text \<open>The definitions that evaluating the decoder on a given text unfolds.\<close>

lemmas num_defs = match_number_def match_integer_def match_frac_def match_exp_def parse_float_def parse_int_def digits_val_def is_digit_def
lemmas lex_defs = is_ws_def scan_atom_def num_defs decode_uXXXX_def hex_val_def backslash_def

section \<open>Facts about the analyzeImage handler\<close>

lemma getitem_Inr: "getitem a k = Inr v \<Longrightarrow> \<exists>ms. a = JObj ms \<and> map_of ms k = Some v"
  by (cases a) (auto split: option.splits)

lemma analyze_Inr:
  assumes "lambda_handler_analyze env raw = Inr r"
  shows "\<exists>ms v c. json_loads raw = Inr (JObj ms) \<and> r = \<lparr>statusCode = 200, body = JObj ms\<rparr>
           \<and> map_of ms (ustr ''verdict'') = Some v \<and> map_of ms (ustr ''confidence'') = Some c"
proof -
  from assms obtain a where a: "json_loads raw = Inr a"
    by (auto simp: lambda_handler_analyze_def split: sum.splits)
  with assms obtain p where p: "log_entry env a = Inr p" and r: "r = \<lparr>statusCode = 200, body = a\<rparr>"
    by (auto simp: lambda_handler_analyze_def split: sum.splits option.splits)
  from p obtain v where v: "getitem a (ustr ''verdict'') = Inr v"
    by (auto simp: log_entry_def Let_def split: sum.splits)
  with p obtain c where c: "getitem a (ustr ''confidence'') = Inr c"
    by (auto simp: log_entry_def Let_def split: sum.splits)
  from getitem_Inr [OF v] getitem_Inr [OF c] a r show ?thesis by auto
qed

lemma analyze_ok:
  assumes "json_loads raw = Inr (JObj ms)"
    and "map_of ms (ustr ''verdict'') = Some v"
    and "map_of ms (ustr ''confidence'') = Some c"
    and "\<And>md. put_metric_data env (ustr ''ClaimsImageLabeler'') md = None"
  shows "lambda_handler_analyze env raw = Inr \<lparr>statusCode = 200, body = JObj ms\<rparr>"
  using assms
  by (simp add: lambda_handler_analyze_def log_entry_def metric_data_def Let_def)

lemma analyze_decode_error:
  "json_loads raw = Inl e \<Longrightarrow> lambda_handler_analyze env raw = Inl e"
  by (simp add: lambda_handler_analyze_def)

lemma analyze_no_verdict:
  "json_loads raw = Inr (JObj ms) \<Longrightarrow> map_of ms (ustr ''verdict'') = None
     \<Longrightarrow> lambda_handler_analyze env raw = Inl (KeyError (ustr ''verdict''))"
  by (simp add: lambda_handler_analyze_def log_entry_def Let_def)

lemma analyze_no_confidence:
  "json_loads raw = Inr (JObj ms) \<Longrightarrow> map_of ms (ustr ''verdict'') = Some v
     \<Longrightarrow> map_of ms (ustr ''confidence'') = None
     \<Longrightarrow> lambda_handler_analyze env raw = Inl (KeyError (ustr ''confidence''))"
  by (simp add: lambda_handler_analyze_def log_entry_def Let_def)

lemma analyze_not_object:
  "json_loads raw = Inr a \<Longrightarrow> \<forall>ms. a \<noteq> JObj ms
     \<Longrightarrow> lambda_handler_analyze env raw = Inl TypeError"
  by (cases a) (simp_all add: lambda_handler_analyze_def log_entry_def Let_def)

text \<open>The decoder on the texts used below.\<close>

lemma loads_refusal:
  "json_loads (ustr ''I cannot analyze this image.'') = Inl JSONDecodeError"
  by (simp add: json_loads_def lex_defs)

lemma loads_prose:
  "json_loads (ustr ''Sure, here you go:\<newline>{\"verdict\":\"AI_GENERATED\",\"confidence\":0.92,\"hints\":[\"edge halos\"]}\<newline>Let me know if you need more.'')
     = Inl JSONDecodeError"
  by (simp add: json_loads_def lex_defs)

lemma loads_bare:
  "json_loads (ustr ''{\"verdict\":\"AI_GENERATED\",\"confidence\":0.92,\"hints\":[\"edge halos\"]}'')
     = Inr (JObj [(ustr ''verdict'', JStr (ustr ''AI_GENERATED'')),
                  (ustr ''confidence'', JFloat (92 / 100)),
                  (ustr ''hints'', JArr [JStr (ustr ''edge halos'')])])"
  by code_simp

lemma loads_confidence_only:
  "json_loads (ustr ''{\"confidence\": 1.7}'') = Inr (JObj [(ustr ''confidence'', JFloat (17 / 10))])"
  by code_simp

lemma loads_negative_confidence:
  "json_loads (ustr ''{\"verdict\":\"LIKELY_REAL\",\"confidence\": -0.3,\"hints\":[\"a\"]}'')
     = Inr (JObj [(ustr ''verdict'', JStr (ustr ''LIKELY_REAL'')),
                  (ustr ''confidence'', JFloat (- 3 / 10)),
                  (ustr ''hints'', JArr [JStr (ustr ''a'')])])"
  by code_simp

lemma loads_out_of_contract:
  "json_loads (ustr ''{\"verdict\":\"FAKE\",\"confidence\":1.7,\"hints\":[\" \",7]}'')
     = Inr (JObj [(ustr ''verdict'', JStr (ustr ''FAKE'')),
                  (ustr ''confidence'', JFloat (17 / 10)),
                  (ustr ''hints'', JArr [JStr (ustr '' ''), JInt 7])])"
  by code_simp

lemma loads_ten_hints:
  "json_loads (ustr ''{\"verdict\":\"AI_GENERATED\",\"confidence\":0.9,\"hints\":[\"h1\",\"h2\",\"h3\",\"h4\",\"h5\",\"h6\",\"h7\",\"h8\",\"h9\",\"h10\"]}'')
     = Inr (JObj [(ustr ''verdict'', JStr (ustr ''AI_GENERATED'')),
                  (ustr ''confidence'', JFloat (9 / 10)),
                  (ustr ''hints'', JArr [JStr (ustr ''h1''), JStr (ustr ''h2''), JStr (ustr ''h3''),
                     JStr (ustr ''h4''), JStr (ustr ''h5''), JStr (ustr ''h6''), JStr (ustr ''h7''),
                     JStr (ustr ''h8''), JStr (ustr ''h9''), JStr (ustr ''h10'')])])"
  by code_simp

lemma loads_verdict_only:
  "json_loads (ustr ''{\"verdict\":\"LIKELY_REAL\"}'')
     = Inr (JObj [(ustr ''verdict'', JStr (ustr ''LIKELY_REAL''))])"
  by code_simp

lemma loads_no_hints:
  "json_loads (ustr ''{\"verdict\":\"LIKELY_REAL\",\"confidence\":0.5}'')
     = Inr (JObj [(ustr ''verdict'', JStr (ustr ''LIKELY_REAL'')),
                  (ustr ''confidence'', JFloat (5 / 10))])"
  by code_simp

lemma loads_presign_pdf:
  "json_loads (ustr ''{\"fileName\":\"claim.pdf\",\"fileType\":\"application/pdf\"}'')
     = Inr (JObj [(ustr ''fileName'', JStr (ustr ''claim.pdf'')),
                  (ustr ''fileType'', JStr (ustr ''application/pdf''))])"
  by code_simp

lemma loads_presign_png:
  "json_loads (ustr ''{\"fileName\":\"vehicle_damage.png\",\"fileType\":\"image/png\"}'')
     = Inr (JObj [(ustr ''fileName'', JStr (ustr ''vehicle_damage.png'')),
                  (ustr ''fileType'', JStr (ustr ''image/png''))])"
  by code_simp

lemma env0_accepts: "put_metric_data env0 ns md = None"
  by (simp add: env0_def cloudwatch_accepts_def)

lemma env1_accepts: "put_metric_data env1 ns md = None"
  by (simp add: env1_def cloudwatch_accepts_def)

section \<open>The claims\<close>

text \<open>
  Claim C1, as amended. For every reply of the model from which the analyzeImage
  handler produces a record for the client, the record is the value that
  \<open>json.loads\<close> decodes from the whole reply, returned unchanged with status 200, and
  it has a \<open>verdict\<close> and a \<open>confidence\<close> member. The handler checks none of the three
  field constraints of the Verdict contract: the record meets them only if the model's
  own output does.
\<close>

theorem analyze_record_is_decoded_text:
  assumes "lambda_handler_analyze env raw = Inr r"
  shows "statusCode r = 200 \<and> json_loads raw = Inr (body r)
           \<and> (\<exists>v. getitem (body r) (ustr ''verdict'') = Inr v)
           \<and> (\<exists>c. getitem (body r) (ustr ''confidence'') = Inr c)"
proof -
  from analyze_Inr [OF assms] obtain ms v c where
    "json_loads raw = Inr (JObj ms)" "r = \<lparr>statusCode = 200, body = JObj ms\<rparr>"
    "map_of ms (ustr ''verdict'') = Some v" "map_of ms (ustr ''confidence'') = Some c"
    by blast
  then show ?thesis by simp
qed

theorem analyze_record_is_decoded_text_witness:
  "lambda_handler_analyze env0
      (ustr ''{\"verdict\":\"AI_GENERATED\",\"confidence\":0.92,\"hints\":[\"edge halos\"]}'')
     = Inr \<lparr>statusCode = 200,
             body = JObj [(ustr ''verdict'', JStr (ustr ''AI_GENERATED'')),
                          (ustr ''confidence'', JFloat (92 / 100)),
                          (ustr ''hints'', JArr [JStr (ustr ''edge halos'')])]\<rparr>
   \<and> json_loads (ustr ''{\"verdict\":\"AI_GENERATED\",\"confidence\":0.92,\"hints\":[\"edge halos\"]}'')
     = Inr (JObj [(ustr ''verdict'', JStr (ustr ''AI_GENERATED'')),
                          (ustr ''confidence'', JFloat (92 / 100)),
                          (ustr ''hints'', JArr [JStr (ustr ''edge halos'')])])"
proof -
  have h: "lambda_handler_analyze env0
      (ustr ''{\"verdict\":\"AI_GENERATED\",\"confidence\":0.92,\"hints\":[\"edge halos\"]}'')
     = Inr \<lparr>statusCode = 200,
             body = JObj [(ustr ''verdict'', JStr (ustr ''AI_GENERATED'')),
                          (ustr ''confidence'', JFloat (92 / 100)),
                          (ustr ''hints'', JArr [JStr (ustr ''edge halos'')])]\<rparr>"
    by (rule analyze_ok [OF loads_bare _ _ env0_accepts]) simp_all
  from analyze_record_is_decoded_text [OF h] h show ?thesis by simp
qed

text \<open>
  Claim C1 as stated fails: a reply whose verdict is outside the three literals, whose
  confidence is 1.7 and whose hints hold a blank string and a number is returned to
  the client as it is, and breaks each of the three constraints.
\<close>

theorem analyze_contract_counterexample:
  "lambda_handler_analyze env0 (ustr ''{\"verdict\":\"FAKE\",\"confidence\":1.7,\"hints\":[\" \",7]}'')
     = Inr \<lparr>statusCode = 200,
             body = JObj [(ustr ''verdict'', JStr (ustr ''FAKE'')),
                          (ustr ''confidence'', JFloat (17 / 10)),
                          (ustr ''hints'', JArr [JStr (ustr '' ''), JInt 7])]\<rparr>
   \<and> \<not> verdict_ok (JObj [(ustr ''verdict'', JStr (ustr ''FAKE'')),
                          (ustr ''confidence'', JFloat (17 / 10)),
                          (ustr ''hints'', JArr [JStr (ustr '' ''), JInt 7])])
   \<and> \<not> confidence_ok (JObj [(ustr ''verdict'', JStr (ustr ''FAKE'')),
                          (ustr ''confidence'', JFloat (17 / 10)),
                          (ustr ''hints'', JArr [JStr (ustr '' ''), JInt 7])])
   \<and> \<not> hints_ok (JObj [(ustr ''verdict'', JStr (ustr ''FAKE'')),
                          (ustr ''confidence'', JFloat (17 / 10)),
                          (ustr ''hints'', JArr [JStr (ustr '' ''), JInt 7])])"
proof -
  have "lambda_handler_analyze env0 (ustr ''{\"verdict\":\"FAKE\",\"confidence\":1.7,\"hints\":[\" \",7]}'')
     = Inr \<lparr>statusCode = 200,
             body = JObj [(ustr ''verdict'', JStr (ustr ''FAKE'')),
                          (ustr ''confidence'', JFloat (17 / 10)),
                          (ustr ''hints'', JArr [JStr (ustr '' ''), JInt 7])]\<rparr>"
    by (rule analyze_ok [OF loads_out_of_contract _ _ env0_accepts]) simp_all
  moreover have "\<not> verdict_ok (JObj [(ustr ''verdict'', JStr (ustr ''FAKE'')),
                          (ustr ''confidence'', JFloat (17 / 10)),
                          (ustr ''hints'', JArr [JStr (ustr '' ''), JInt 7])])"
    by (simp add: verdict_ok_def verdict_literals_def)
  moreover have "\<not> confidence_ok (JObj [(ustr ''verdict'', JStr (ustr ''FAKE'')),
                          (ustr ''confidence'', JFloat (17 / 10)),
                          (ustr ''hints'', JArr [JStr (ustr '' ''), JInt 7])])"
    by (simp add: confidence_ok_def)
  moreover have "\<not> hints_ok (JObj [(ustr ''verdict'', JStr (ustr ''FAKE'')),
                          (ustr ''confidence'', JFloat (17 / 10)),
                          (ustr ''hints'', JArr [JStr (ustr '' ''), JInt 7])])"
    by (simp add: hints_ok_def hint_ok_def trim_def is_space_def)
  ultimately show ?thesis by blast
qed

text \<open>
  Claim C2. A reply that contains no JSON object, that is, no part of the text decodes
  to an object, makes the handler raise: \<open>JSONDecodeError\<close> when the reply is not
  JSON at all, \<open>TypeError\<close> when it is JSON of another kind. The exception leaves the
  handler; no record, default or other, is produced.
\<close>

theorem analyze_no_object_raises:
  assumes "\<not> contains_json_object raw"
  shows "lambda_handler_analyze env raw = Inl JSONDecodeError
           \<or> lambda_handler_analyze env raw = Inl TypeError"
proof (cases "json_loads raw")
  case (Inl e)
  with json_loads_error [OF Inl] show ?thesis by (simp add: analyze_decode_error)
next
  case (Inr a)
  have "\<forall>ms. a \<noteq> JObj ms"
  proof (intro allI notI)
    fix ms assume "a = JObj ms"
    with Inr have "sublist raw raw \<and> json_loads raw = Inr (JObj ms)" by simp
    with assms show False unfolding contains_json_object_iff by blast
  qed
  from analyze_not_object [OF Inr this] show ?thesis by simp
qed

theorem analyze_no_object_raises_witness:
  "\<not> contains_json_object (ustr ''I cannot analyze this image.'')
   \<and> lambda_handler_analyze env0 (ustr ''I cannot analyze this image.'') = Inl JSONDecodeError"
proof -
  have n: "\<not> contains_json_object (ustr ''I cannot analyze this image.'')"
    by (rule no_brace_no_object) simp
  have "lambda_handler_analyze env0 (ustr ''I cannot analyze this image.'') = Inl JSONDecodeError"
    by (rule analyze_decode_error [OF loads_refusal])
  with analyze_no_object_raises [OF n, of env0] n show ?thesis by blast
qed

text \<open>
  Claim C3, as amended. For every reply that \<open>json.loads\<close> decodes as a whole to an
  object with a \<open>verdict\<close> and a \<open>confidence\<close> member, the handler succeeds (the
  CloudWatch call returning) and the record is that object. There is no extraction
  step: the handler decodes the whole reply and nothing less.
\<close>

theorem analyze_whole_reply_object:
  assumes "json_loads raw = Inr (JObj ms)"
    and "map_of ms (ustr ''verdict'') = Some v"
    and "map_of ms (ustr ''confidence'') = Some c"
    and "\<forall>md. put_metric_data env (ustr ''ClaimsImageLabeler'') md = None"
  shows "lambda_handler_analyze env raw = Inr \<lparr>statusCode = 200, body = JObj ms\<rparr>"
  using assms by (intro analyze_ok) auto

theorem analyze_whole_reply_object_witness:
  "lambda_handler_analyze env1
      (ustr ''{\"verdict\":\"AI_GENERATED\",\"confidence\":0.92,\"hints\":[\"edge halos\"]}'')
     = Inr \<lparr>statusCode = 200,
             body = JObj [(ustr ''verdict'', JStr (ustr ''AI_GENERATED'')),
                          (ustr ''confidence'', JFloat (92 / 100)),
                          (ustr ''hints'', JArr [JStr (ustr ''edge halos'')])]\<rparr>"
  by (rule analyze_whole_reply_object [OF loads_bare]) (simp_all add: env1_accepts)

text \<open>
  Claim C3 as stated fails on its own example: the object wrapped in prose is not
  located, the decoder rejects the reply at its first character.
\<close>

theorem analyze_prose_counterexample:
  "lambda_handler_analyze env0
      (ustr ''Sure, here you go:\<newline>{\"verdict\":\"AI_GENERATED\",\"confidence\":0.92,\"hints\":[\"edge halos\"]}\<newline>Let me know if you need more.'')
     = Inl JSONDecodeError"
  by (rule analyze_decode_error [OF loads_prose])

text \<open>
  Claim C4, as amended. For a reply that decodes to an object without a \<open>verdict\<close>
  member the handler raises \<open>KeyError\<close> and produces no record; when it produces a
  record, the \<open>verdict\<close> of the record is the one the model wrote, whether or not it is
  one of the three literals. Nothing is replaced by \<open>INCONCLUSIVE\<close>.
\<close>

theorem analyze_verdict_unchanged:
  "(json_loads raw = Inr (JObj ms) \<and> map_of ms (ustr ''verdict'') = None
      \<longrightarrow> lambda_handler_analyze env raw = Inl (KeyError (ustr ''verdict'')))
   \<and> (json_loads raw = Inr a \<and> lambda_handler_analyze env raw = Inr r
      \<longrightarrow> getitem (body r) (ustr ''verdict'') = getitem a (ustr ''verdict''))"
proof (intro conjI impI)
  assume "json_loads raw = Inr (JObj ms) \<and> map_of ms (ustr ''verdict'') = None"
  then show "lambda_handler_analyze env raw = Inl (KeyError (ustr ''verdict''))"
    by (simp add: analyze_no_verdict)
next
  assume h: "json_loads raw = Inr a \<and> lambda_handler_analyze env raw = Inr r"
  with analyze_Inr [of env raw r] have "body r = a" by auto
  then show "getitem (body r) (ustr ''verdict'') = getitem a (ustr ''verdict'')" by simp
qed

theorem analyze_verdict_unchanged_witness:
  "json_loads (ustr ''{\"confidence\": 1.7}'') = Inr (JObj [(ustr ''confidence'', JFloat (17 / 10))])
   \<and> map_of [(ustr ''confidence'', JFloat (17 / 10))] (ustr ''verdict'') = None
   \<and> lambda_handler_analyze env0 (ustr ''{\"confidence\": 1.7}'') = Inl (KeyError (ustr ''verdict''))
   \<and> lambda_handler_analyze env0 (ustr ''{\"verdict\":\"FAKE\",\"confidence\":1.7,\"hints\":[\" \",7]}'')
     = Inr \<lparr>statusCode = 200,
             body = JObj [(ustr ''verdict'', JStr (ustr ''FAKE'')),
                          (ustr ''confidence'', JFloat (17 / 10)),
                          (ustr ''hints'', JArr [JStr (ustr '' ''), JInt 7])]\<rparr>
   \<and> getitem (JObj [(ustr ''verdict'', JStr (ustr ''FAKE'')),
                          (ustr ''confidence'', JFloat (17 / 10)),
                          (ustr ''hints'', JArr [JStr (ustr '' ''), JInt 7])]) (ustr ''verdict'')
     = Inr (JStr (ustr ''FAKE''))"
proof -
  have ok: "lambda_handler_analyze env0 (ustr ''{\"verdict\":\"FAKE\",\"confidence\":1.7,\"hints\":[\" \",7]}'')
     = Inr \<lparr>statusCode = 200,
             body = JObj [(ustr ''verdict'', JStr (ustr ''FAKE'')),
                          (ustr ''confidence'', JFloat (17 / 10)),
                          (ustr ''hints'', JArr [JStr (ustr '' ''), JInt 7])]\<rparr>"
    by (rule analyze_ok [OF loads_out_of_contract _ _ env0_accepts]) simp_all
  have m: "map_of [(ustr ''confidence'', JFloat (17 / 10))] (ustr ''verdict'') = None" by simp
  from analyze_verdict_unchanged [of "ustr ''{\"confidence\": 1.7}''"
      "[(ustr ''confidence'', JFloat (17 / 10))]" env0] loads_confidence_only m
  have 1: "lambda_handler_analyze env0 (ustr ''{\"confidence\": 1.7}'') = Inl (KeyError (ustr ''verdict''))"
    by blast
  from analyze_verdict_unchanged
         [where raw = "ustr ''{\"verdict\":\"FAKE\",\"confidence\":1.7,\"hints\":[\" \",7]}''"
            and env = env0
            and a = "JObj [(ustr ''verdict'', JStr (ustr ''FAKE'')),
                          (ustr ''confidence'', JFloat (17 / 10)),
                          (ustr ''hints'', JArr [JStr (ustr '' ''), JInt 7])]"
            and r = "\<lparr>statusCode = 200,
                      body = JObj [(ustr ''verdict'', JStr (ustr ''FAKE'')),
                          (ustr ''confidence'', JFloat (17 / 10)),
                          (ustr ''hints'', JArr [JStr (ustr '' ''), JInt 7])]\<rparr>"]
       loads_out_of_contract ok
  have "getitem (body \<lparr>statusCode = 200,
                      body = JObj [(ustr ''verdict'', JStr (ustr ''FAKE'')),
                          (ustr ''confidence'', JFloat (17 / 10)),
                          (ustr ''hints'', JArr [JStr (ustr '' ''), JInt 7])]\<rparr>) (ustr ''verdict'')
          = getitem (JObj [(ustr ''verdict'', JStr (ustr ''FAKE'')),
                          (ustr ''confidence'', JFloat (17 / 10)),
                          (ustr ''hints'', JArr [JStr (ustr '' ''), JInt 7])]) (ustr ''verdict'')"
    by blast
  then have 2: "getitem (JObj [(ustr ''verdict'', JStr (ustr ''FAKE'')),
                          (ustr ''confidence'', JFloat (17 / 10)),
                          (ustr ''hints'', JArr [JStr (ustr '' ''), JInt 7])]) (ustr ''verdict'')
     = Inr (JStr (ustr ''FAKE''))" by simp
  from ok 1 2 m loads_confidence_only show ?thesis by blast
qed

text \<open>
  Claim C4 as stated fails on its own example: with no \<open>verdict\<close> member the handler
  raises \<open>KeyError\<close> where the claim has it return \<open>INCONCLUSIVE\<close> with confidence 1.0.
\<close>

theorem analyze_missing_verdict_counterexample:
  "lambda_handler_analyze env0 (ustr ''{\"confidence\": 1.7}'') = Inl (KeyError (ustr ''verdict''))"
  by (rule analyze_no_verdict [OF loads_confidence_only]) simp

text \<open>
  Claim C5, as amended. For a reply that decodes to an object with a \<open>verdict\<close> but
  without a \<open>confidence\<close> member the handler raises \<open>KeyError\<close> and produces no
  record; when it produces a record, the \<open>confidence\<close> of the record is the value the
  model wrote, numeric or not, inside the interval from 0 to 1 or not. Nothing is
  clamped and nothing is replaced by 0.0.
\<close>

theorem analyze_confidence_unchanged:
  "(json_loads raw = Inr (JObj ms) \<and> map_of ms (ustr ''verdict'') = Some v
       \<and> map_of ms (ustr ''confidence'') = None
      \<longrightarrow> lambda_handler_analyze env raw = Inl (KeyError (ustr ''confidence'')))
   \<and> (json_loads raw = Inr a \<and> lambda_handler_analyze env raw = Inr r
      \<longrightarrow> getitem (body r) (ustr ''confidence'') = getitem a (ustr ''confidence''))"
proof (intro conjI impI)
  assume "json_loads raw = Inr (JObj ms) \<and> map_of ms (ustr ''verdict'') = Some v
       \<and> map_of ms (ustr ''confidence'') = None"
  then show "lambda_handler_analyze env raw = Inl (KeyError (ustr ''confidence''))"
    by (simp add: analyze_no_confidence)
next
  assume h: "json_loads raw = Inr a \<and> lambda_handler_analyze env raw = Inr r"
  with analyze_Inr [of env raw r] have "body r = a" by auto
  then show "getitem (body r) (ustr ''confidence'') = getitem a (ustr ''confidence'')" by simp
qed

theorem analyze_confidence_unchanged_witness:
  "json_loads (ustr ''{\"verdict\":\"LIKELY_REAL\"}'')
     = Inr (JObj [(ustr ''verdict'', JStr (ustr ''LIKELY_REAL''))])
   \<and> lambda_handler_analyze env0 (ustr ''{\"verdict\":\"LIKELY_REAL\"}'')
     = Inl (KeyError (ustr ''confidence''))
   \<and> lambda_handler_analyze env0 (ustr ''{\"verdict\":\"FAKE\",\"confidence\":1.7,\"hints\":[\" \",7]}'')
     = Inr \<lparr>statusCode = 200,
             body = JObj [(ustr ''verdict'', JStr (ustr ''FAKE'')),
                          (ustr ''confidence'', JFloat (17 / 10)),
                          (ustr ''hints'', JArr [JStr (ustr '' ''), JInt 7])]\<rparr>
   \<and> getitem (JObj [(ustr ''verdict'', JStr (ustr ''FAKE'')),
                          (ustr ''confidence'', JFloat (17 / 10)),
                          (ustr ''hints'', JArr [JStr (ustr '' ''), JInt 7])]) (ustr ''confidence'')
     = Inr (JFloat (17 / 10))"
proof -
  have ok: "lambda_handler_analyze env0 (ustr ''{\"verdict\":\"FAKE\",\"confidence\":1.7,\"hints\":[\" \",7]}'')
     = Inr \<lparr>statusCode = 200,
             body = JObj [(ustr ''verdict'', JStr (ustr ''FAKE'')),
                          (ustr ''confidence'', JFloat (17 / 10)),
                          (ustr ''hints'', JArr [JStr (ustr '' ''), JInt 7])]\<rparr>"
    by (rule analyze_ok [OF loads_out_of_contract _ _ env0_accepts]) simp_all
  have m: "map_of [(ustr ''verdict'', JStr (ustr ''LIKELY_REAL''))] (ustr ''verdict'')
             = Some (JStr (ustr ''LIKELY_REAL''))
           \<and> map_of [(ustr ''verdict'', JStr (ustr ''LIKELY_REAL''))] (ustr ''confidence'') = None"
    by simp
  from analyze_confidence_unchanged [of "ustr ''{\"verdict\":\"LIKELY_REAL\"}''"
      "[(ustr ''verdict'', JStr (ustr ''LIKELY_REAL''))]" "JStr (ustr ''LIKELY_REAL'')" env0]
    loads_verdict_only m
  have 1: "lambda_handler_analyze env0 (ustr ''{\"verdict\":\"LIKELY_REAL\"}'')
     = Inl (KeyError (ustr ''confidence''))"
    by blast
  from analyze_confidence_unchanged
         [where raw = "ustr ''{\"verdict\":\"FAKE\",\"confidence\":1.7,\"hints\":[\" \",7]}''"
            and env = env0
            and a = "JObj [(ustr ''verdict'', JStr (ustr ''FAKE'')),
                          (ustr ''confidence'', JFloat (17 / 10)),
                          (ustr ''hints'', JArr [JStr (ustr '' ''), JInt 7])]"
            and r = "\<lparr>statusCode = 200,
                      body = JObj [(ustr ''verdict'', JStr (ustr ''FAKE'')),
                          (ustr ''confidence'', JFloat (17 / 10)),
                          (ustr ''hints'', JArr [JStr (ustr '' ''), JInt 7])]\<rparr>"]
       loads_out_of_contract ok
  have "getitem (body \<lparr>statusCode = 200,
                      body = JObj [(ustr ''verdict'', JStr (ustr ''FAKE'')),
                          (ustr ''confidence'', JFloat (17 / 10)),
                          (ustr ''hints'', JArr [JStr (ustr '' ''), JInt 7])]\<rparr>) (ustr ''confidence'')
          = getitem (JObj [(ustr ''verdict'', JStr (ustr ''FAKE'')),
                          (ustr ''confidence'', JFloat (17 / 10)),
                          (ustr ''hints'', JArr [JStr (ustr '' ''), JInt 7])]) (ustr ''confidence'')"
    by blast
  then have 2: "getitem (JObj [(ustr ''verdict'', JStr (ustr ''FAKE'')),
                          (ustr ''confidence'', JFloat (17 / 10)),
                          (ustr ''hints'', JArr [JStr (ustr '' ''), JInt 7])]) (ustr ''confidence'')
     = Inr (JFloat (17 / 10))" by simp
  from ok 1 2 loads_verdict_only show ?thesis by blast
qed

text \<open>
  Claim C5 as stated fails on its own example: the confidence -0.3 is returned as
  -0.3, not as 0.0, and the record breaks the range constraint.
\<close>

theorem analyze_negative_confidence_counterexample:
  "lambda_handler_analyze env0
      (ustr ''{\"verdict\":\"LIKELY_REAL\",\"confidence\": -0.3,\"hints\":[\"a\"]}'')
     = Inr \<lparr>statusCode = 200,
             body = JObj [(ustr ''verdict'', JStr (ustr ''LIKELY_REAL'')),
                          (ustr ''confidence'', JFloat (- 3 / 10)),
                          (ustr ''hints'', JArr [JStr (ustr ''a'')])]\<rparr>
   \<and> getitem (JObj [(ustr ''verdict'', JStr (ustr ''LIKELY_REAL'')),
                          (ustr ''confidence'', JFloat (- 3 / 10)),
                          (ustr ''hints'', JArr [JStr (ustr ''a'')])]) (ustr ''confidence'')
       \<noteq> Inr (JFloat 0)
   \<and> \<not> confidence_ok (JObj [(ustr ''verdict'', JStr (ustr ''LIKELY_REAL'')),
                          (ustr ''confidence'', JFloat (- 3 / 10)),
                          (ustr ''hints'', JArr [JStr (ustr ''a'')])])"
proof -
  have "lambda_handler_analyze env0
      (ustr ''{\"verdict\":\"LIKELY_REAL\",\"confidence\": -0.3,\"hints\":[\"a\"]}'')
     = Inr \<lparr>statusCode = 200,
             body = JObj [(ustr ''verdict'', JStr (ustr ''LIKELY_REAL'')),
                          (ustr ''confidence'', JFloat (- 3 / 10)),
                          (ustr ''hints'', JArr [JStr (ustr ''a'')])]\<rparr>"
    by (rule analyze_ok [OF loads_negative_confidence _ _ env0_accepts]) simp_all
  then show ?thesis by (simp add: confidence_ok_def)
qed

text \<open>
  Claim C6, as amended. When the handler produces a record, the \<open>hints\<close> of the record
  are the ones the model wrote, in the same order: no element is dropped, trimmed or
  cut off. A reply without \<open>hints\<close> is accepted and the record has no \<open>hints\<close> member
  either.
\<close>

theorem analyze_hints_unchanged:
  "(json_loads raw = Inr a \<and> lambda_handler_analyze env raw = Inr r
      \<longrightarrow> getitem (body r) (ustr ''hints'') = getitem a (ustr ''hints''))
   \<and> (json_loads raw = Inr (JObj ms) \<and> map_of ms (ustr ''verdict'') = Some v
       \<and> map_of ms (ustr ''confidence'') = Some c \<and> map_of ms (ustr ''hints'') = None
       \<and> (\<forall>md. put_metric_data env (ustr ''ClaimsImageLabeler'') md = None)
      \<longrightarrow> lambda_handler_analyze env raw = Inr \<lparr>statusCode = 200, body = JObj ms\<rparr>
          \<and> getitem (JObj ms) (ustr ''hints'') = Inl (KeyError (ustr ''hints'')))"
proof (intro conjI impI)
  assume h: "json_loads raw = Inr a \<and> lambda_handler_analyze env raw = Inr r"
  with analyze_Inr [of env raw r] have "body r = a" by auto
  then show "getitem (body r) (ustr ''hints'') = getitem a (ustr ''hints'')" by simp
next
  assume h: "json_loads raw = Inr (JObj ms) \<and> map_of ms (ustr ''verdict'') = Some v
       \<and> map_of ms (ustr ''confidence'') = Some c \<and> map_of ms (ustr ''hints'') = None
       \<and> (\<forall>md. put_metric_data env (ustr ''ClaimsImageLabeler'') md = None)"
  then show "lambda_handler_analyze env raw = Inr \<lparr>statusCode = 200, body = JObj ms\<rparr>"
    by (intro analyze_ok) auto
next
  assume h: "json_loads raw = Inr (JObj ms) \<and> map_of ms (ustr ''verdict'') = Some v
       \<and> map_of ms (ustr ''confidence'') = Some c \<and> map_of ms (ustr ''hints'') = None
       \<and> (\<forall>md. put_metric_data env (ustr ''ClaimsImageLabeler'') md = None)"
  then show "getitem (JObj ms) (ustr ''hints'') = Inl (KeyError (ustr ''hints''))" by simp
qed

theorem analyze_hints_unchanged_witness:
  "json_loads (ustr ''{\"verdict\":\"LIKELY_REAL\",\"confidence\":0.5}'')
     = Inr (JObj [(ustr ''verdict'', JStr (ustr ''LIKELY_REAL'')),
                  (ustr ''confidence'', JFloat (5 / 10))])
   \<and> lambda_handler_analyze env1 (ustr ''{\"verdict\":\"LIKELY_REAL\",\"confidence\":0.5}'')
     = Inr \<lparr>statusCode = 200,
             body = JObj [(ustr ''verdict'', JStr (ustr ''LIKELY_REAL'')),
                          (ustr ''confidence'', JFloat (5 / 10))]\<rparr>
   \<and> getitem (JObj [(ustr ''verdict'', JStr (ustr ''LIKELY_REAL'')),
                          (ustr ''confidence'', JFloat (5 / 10))]) (ustr ''hints'')
     = Inl (KeyError (ustr ''hints''))
   \<and> lambda_handler_analyze env1
       (ustr ''{\"verdict\":\"AI_GENERATED\",\"confidence\":0.9,\"hints\":[\"h1\",\"h2\",\"h3\",\"h4\",\"h5\",\"h6\",\"h7\",\"h8\",\"h9\",\"h10\"]}'')
     = Inr \<lparr>statusCode = 200,
             body = JObj [(ustr ''verdict'', JStr (ustr ''AI_GENERATED'')),
                  (ustr ''confidence'', JFloat (9 / 10)),
                  (ustr ''hints'', JArr [JStr (ustr ''h1''), JStr (ustr ''h2''), JStr (ustr ''h3''),
                     JStr (ustr ''h4''), JStr (ustr ''h5''), JStr (ustr ''h6''), JStr (ustr ''h7''),
                     JStr (ustr ''h8''), JStr (ustr ''h9''), JStr (ustr ''h10'')])]\<rparr>
   \<and> getitem (JObj [(ustr ''verdict'', JStr (ustr ''AI_GENERATED'')),
                  (ustr ''confidence'', JFloat (9 / 10)),
                  (ustr ''hints'', JArr [JStr (ustr ''h1''), JStr (ustr ''h2''), JStr (ustr ''h3''),
                     JStr (ustr ''h4''), JStr (ustr ''h5''), JStr (ustr ''h6''), JStr (ustr ''h7''),
                     JStr (ustr ''h8''), JStr (ustr ''h9''), JStr (ustr ''h10'')])]) (ustr ''hints'')
     = Inr (JArr [JStr (ustr ''h1''), JStr (ustr ''h2''), JStr (ustr ''h3''),
                     JStr (ustr ''h4''), JStr (ustr ''h5''), JStr (ustr ''h6''), JStr (ustr ''h7''),
                     JStr (ustr ''h8''), JStr (ustr ''h9''), JStr (ustr ''h10'')])"
proof -
  have m: "map_of [(ustr ''verdict'', JStr (ustr ''LIKELY_REAL'')),
                  (ustr ''confidence'', JFloat (5 / 10))] (ustr ''verdict'') = Some (JStr (ustr ''LIKELY_REAL''))
     \<and> map_of [(ustr ''verdict'', JStr (ustr ''LIKELY_REAL'')),
                  (ustr ''confidence'', JFloat (5 / 10))] (ustr ''confidence'') = Some (JFloat (5 / 10))
     \<and> map_of [(ustr ''verdict'', JStr (ustr ''LIKELY_REAL'')),
                  (ustr ''confidence'', JFloat (5 / 10))] (ustr ''hints'') = None"
    by simp
  from analyze_hints_unchanged
         [where raw = "ustr ''{\"verdict\":\"LIKELY_REAL\",\"confidence\":0.5}''" and env = env1
            and ms = "[(ustr ''verdict'', JStr (ustr ''LIKELY_REAL'')),
                       (ustr ''confidence'', JFloat (5 / 10))]"
            and v = "JStr (ustr ''LIKELY_REAL'')" and c = "JFloat (5 / 10)"]
       loads_no_hints m env1_accepts
  have 1: "lambda_handler_analyze env1 (ustr ''{\"verdict\":\"LIKELY_REAL\",\"confidence\":0.5}'')
     = Inr \<lparr>statusCode = 200,
             body = JObj [(ustr ''verdict'', JStr (ustr ''LIKELY_REAL'')),
                          (ustr ''confidence'', JFloat (5 / 10))]\<rparr>
   \<and> getitem (JObj [(ustr ''verdict'', JStr (ustr ''LIKELY_REAL'')),
                          (ustr ''confidence'', JFloat (5 / 10))]) (ustr ''hints'')
     = Inl (KeyError (ustr ''hints''))"
    by blast
  have ok: "lambda_handler_analyze env1
       (ustr ''{\"verdict\":\"AI_GENERATED\",\"confidence\":0.9,\"hints\":[\"h1\",\"h2\",\"h3\",\"h4\",\"h5\",\"h6\",\"h7\",\"h8\",\"h9\",\"h10\"]}'')
     = Inr \<lparr>statusCode = 200,
             body = JObj [(ustr ''verdict'', JStr (ustr ''AI_GENERATED'')),
                  (ustr ''confidence'', JFloat (9 / 10)),
                  (ustr ''hints'', JArr [JStr (ustr ''h1''), JStr (ustr ''h2''), JStr (ustr ''h3''),
                     JStr (ustr ''h4''), JStr (ustr ''h5''), JStr (ustr ''h6''), JStr (ustr ''h7''),
                     JStr (ustr ''h8''), JStr (ustr ''h9''), JStr (ustr ''h10'')])]\<rparr>"
    by (rule analyze_ok [OF loads_ten_hints _ _ env1_accepts]) simp_all
  from analyze_hints_unchanged
         [where raw = "ustr ''{\"verdict\":\"AI_GENERATED\",\"confidence\":0.9,\"hints\":[\"h1\",\"h2\",\"h3\",\"h4\",\"h5\",\"h6\",\"h7\",\"h8\",\"h9\",\"h10\"]}''"
            and env = env1
            and a = "JObj [(ustr ''verdict'', JStr (ustr ''AI_GENERATED'')),
                  (ustr ''confidence'', JFloat (9 / 10)),
                  (ustr ''hints'', JArr [JStr (ustr ''h1''), JStr (ustr ''h2''), JStr (ustr ''h3''),
                     JStr (ustr ''h4''), JStr (ustr ''h5''), JStr (ustr ''h6''), JStr (ustr ''h7''),
                     JStr (ustr ''h8''), JStr (ustr ''h9''), JStr (ustr ''h10'')])]"
            and r = "\<lparr>statusCode = 200,
             body = JObj [(ustr ''verdict'', JStr (ustr ''AI_GENERATED'')),
                  (ustr ''confidence'', JFloat (9 / 10)),
                  (ustr ''hints'', JArr [JStr (ustr ''h1''), JStr (ustr ''h2''), JStr (ustr ''h3''),
                     JStr (ustr ''h4''), JStr (ustr ''h5''), JStr (ustr ''h6''), JStr (ustr ''h7''),
                     JStr (ustr ''h8''), JStr (ustr ''h9''), JStr (ustr ''h10'')])]\<rparr>"]
       loads_ten_hints ok
  have "getitem (body \<lparr>statusCode = 200,
             body = JObj [(ustr ''verdict'', JStr (ustr ''AI_GENERATED'')),
                  (ustr ''confidence'', JFloat (9 / 10)),
                  (ustr ''hints'', JArr [JStr (ustr ''h1''), JStr (ustr ''h2''), JStr (ustr ''h3''),
                     JStr (ustr ''h4''), JStr (ustr ''h5''), JStr (ustr ''h6''), JStr (ustr ''h7''),
                     JStr (ustr ''h8''), JStr (ustr ''h9''), JStr (ustr ''h10'')])]\<rparr>) (ustr ''hints'')
        = getitem (JObj [(ustr ''verdict'', JStr (ustr ''AI_GENERATED'')),
                  (ustr ''confidence'', JFloat (9 / 10)),
                  (ustr ''hints'', JArr [JStr (ustr ''h1''), JStr (ustr ''h2''), JStr (ustr ''h3''),
                     JStr (ustr ''h4''), JStr (ustr ''h5''), JStr (ustr ''h6''), JStr (ustr ''h7''),
                     JStr (ustr ''h8''), JStr (ustr ''h9''), JStr (ustr ''h10'')])]) (ustr ''hints'')"
    by blast
  then have 2: "getitem (JObj [(ustr ''verdict'', JStr (ustr ''AI_GENERATED'')),
                  (ustr ''confidence'', JFloat (9 / 10)),
                  (ustr ''hints'', JArr [JStr (ustr ''h1''), JStr (ustr ''h2''), JStr (ustr ''h3''),
                     JStr (ustr ''h4''), JStr (ustr ''h5''), JStr (ustr ''h6''), JStr (ustr ''h7''),
                     JStr (ustr ''h8''), JStr (ustr ''h9''), JStr (ustr ''h10'')])]) (ustr ''hints'')
     = Inr (JArr [JStr (ustr ''h1''), JStr (ustr ''h2''), JStr (ustr ''h3''),
                     JStr (ustr ''h4''), JStr (ustr ''h5''), JStr (ustr ''h6''), JStr (ustr ''h7''),
                     JStr (ustr ''h8''), JStr (ustr ''h9''), JStr (ustr ''h10'')])"
    by simp
  from 1 2 ok loads_no_hints show ?thesis by blast
qed

text \<open>
  Claim C6 as stated fails on its own example: ten hints come back as ten hints.
\<close>

theorem analyze_ten_hints_counterexample:
  "lambda_handler_analyze env0
     (ustr ''{\"verdict\":\"AI_GENERATED\",\"confidence\":0.9,\"hints\":[\"h1\",\"h2\",\"h3\",\"h4\",\"h5\",\"h6\",\"h7\",\"h8\",\"h9\",\"h10\"]}'')
     = Inr \<lparr>statusCode = 200,
             body = JObj [(ustr ''verdict'', JStr (ustr ''AI_GENERATED'')),
                  (ustr ''confidence'', JFloat (9 / 10)),
                  (ustr ''hints'', JArr [JStr (ustr ''h1''), JStr (ustr ''h2''), JStr (ustr ''h3''),
                     JStr (ustr ''h4''), JStr (ustr ''h5''), JStr (ustr ''h6''), JStr (ustr ''h7''),
                     JStr (ustr ''h8''), JStr (ustr ''h9''), JStr (ustr ''h10'')])]\<rparr>
   \<and> length [JStr (ustr ''h1''), JStr (ustr ''h2''), JStr (ustr ''h3''),
                     JStr (ustr ''h4''), JStr (ustr ''h5''), JStr (ustr ''h6''), JStr (ustr ''h7''),
                     JStr (ustr ''h8''), JStr (ustr ''h9''), JStr (ustr ''h10'')] = 10"
proof -
  have "lambda_handler_analyze env0
     (ustr ''{\"verdict\":\"AI_GENERATED\",\"confidence\":0.9,\"hints\":[\"h1\",\"h2\",\"h3\",\"h4\",\"h5\",\"h6\",\"h7\",\"h8\",\"h9\",\"h10\"]}'')
     = Inr \<lparr>statusCode = 200,
             body = JObj [(ustr ''verdict'', JStr (ustr ''AI_GENERATED'')),
                  (ustr ''confidence'', JFloat (9 / 10)),
                  (ustr ''hints'', JArr [JStr (ustr ''h1''), JStr (ustr ''h2''), JStr (ustr ''h3''),
                     JStr (ustr ''h4''), JStr (ustr ''h5''), JStr (ustr ''h6''), JStr (ustr ''h7''),
                     JStr (ustr ''h8''), JStr (ustr ''h9''), JStr (ustr ''h10'')])]\<rparr>"
    by (rule analyze_ok [OF loads_ten_hints _ _ env0_accepts]) simp_all
  then show ?thesis by simp
qed

text \<open>
  Claim C7. For a presign request whose body is a JSON object with a \<open>fileName\<close> and a
  string \<open>fileType\<close>: a \<open>fileType\<close> that does not start with \<open>image/\<close> is answered with
  \<open>error_response(400, 'Invalid file type')\<close> and no link is signed; a \<open>fileType\<close> that starts with
  \<open>image/\<close> is answered with status 200 and the signed link, the key and the bucket,
  when the signing call returns. The allow-list of the source is the prefix \<open>image/\<close>.
\<close>

theorem presign_media_type:
  assumes "getitem event (ustr ''body'') = Inr (JStr b)"
    and "json_loads b = Inr req"
    and "getitem req (ustr ''fileName'') = Inr file_name"
    and "getitem req (ustr ''fileType'') = Inr (JStr file_type)"
  shows "(\<not> prefix (ustr ''image/'') file_type \<longrightarrow>
            lambda_handler_presign env event
              = Inr (error_response env 400 (ustr ''Invalid file type'')))
       \<and> (prefix (ustr ''image/'') file_type \<longrightarrow>
            generate_presigned_url env (BUCKET_NAME env)
               (ustr ''uploads/'' @ uuid4 env @ ustr ''-'' @ format_value env file_name)
               file_type 900 = Inr url \<longrightarrow>
            lambda_handler_presign env event
              = Inr \<lparr>statusCode = 200,
                     body = JObj [(ustr ''url'', JStr url),
                                  (ustr ''key'', JStr (ustr ''uploads/'' @ uuid4 env @ ustr ''-''
                                                        @ format_value env file_name)),
                                  (ustr ''bucket'', JStr (BUCKET_NAME env))]\<rparr>)"
  using assms
  by (simp add: lambda_handler_presign_def Let_def)

theorem presign_media_type_witness:
  "lambda_handler_presign penv0
      (JObj [(ustr ''body'',
              JStr (ustr ''{\"fileName\":\"claim.pdf\",\"fileType\":\"application/pdf\"}''))])
     = Inr \<lparr>statusCode = 400, body = JObj [(ustr ''error'', JStr (ustr ''Invalid file type''))]\<rparr>
   \<and> lambda_handler_presign penv0
      (JObj [(ustr ''body'',
              JStr (ustr ''{\"fileName\":\"vehicle_damage.png\",\"fileType\":\"image/png\"}''))])
     = Inr \<lparr>statusCode = 200,
             body = JObj [(ustr ''url'',
                             JStr (ustr ''https://claims-images-bucket/uploads/12345-vehicle_damage.png'')),
                          (ustr ''key'', JStr (ustr ''uploads/12345-vehicle_damage.png'')),
                          (ustr ''bucket'', JStr (ustr ''claims-images-bucket''))]\<rparr>"
proof -
  have pdf: "\<not> prefix (ustr ''image/'') (ustr ''application/pdf'')" by simp
  have png: "prefix (ustr ''image/'') (ustr ''image/png'')" by simp
  have b1: "getitem (JObj [(ustr ''body'',
              JStr (ustr ''{\"fileName\":\"claim.pdf\",\"fileType\":\"application/pdf\"}''))]) (ustr ''body'')
      = Inr (JStr (ustr ''{\"fileName\":\"claim.pdf\",\"fileType\":\"application/pdf\"}''))"
    by simp
  have b2: "getitem (JObj [(ustr ''body'',
              JStr (ustr ''{\"fileName\":\"vehicle_damage.png\",\"fileType\":\"image/png\"}''))]) (ustr ''body'')
      = Inr (JStr (ustr ''{\"fileName\":\"vehicle_damage.png\",\"fileType\":\"image/png\"}''))"
    by simp
  have n1: "getitem (JObj [(ustr ''fileName'', JStr (ustr ''claim.pdf'')),
                  (ustr ''fileType'', JStr (ustr ''application/pdf''))]) (ustr ''fileName'')
              = Inr (JStr (ustr ''claim.pdf''))" by simp
  have t1: "getitem (JObj [(ustr ''fileName'', JStr (ustr ''claim.pdf'')),
                  (ustr ''fileType'', JStr (ustr ''application/pdf''))]) (ustr ''fileType'')
              = Inr (JStr (ustr ''application/pdf''))" by simp
  have n2: "getitem (JObj [(ustr ''fileName'', JStr (ustr ''vehicle_damage.png'')),
                  (ustr ''fileType'', JStr (ustr ''image/png''))]) (ustr ''fileName'')
              = Inr (JStr (ustr ''vehicle_damage.png''))" by simp
  have t2: "getitem (JObj [(ustr ''fileName'', JStr (ustr ''vehicle_damage.png'')),
                  (ustr ''fileType'', JStr (ustr ''image/png''))]) (ustr ''fileType'')
              = Inr (JStr (ustr ''image/png''))" by simp
  have sg: "generate_presigned_url penv0 (BUCKET_NAME penv0)
               (ustr ''uploads/'' @ uuid4 penv0 @ ustr ''-''
                  @ format_value penv0 (JStr (ustr ''vehicle_damage.png'')))
               (ustr ''image/png'') 900
        = Inr (ustr ''https://claims-images-bucket/uploads/12345-vehicle_damage.png'')"
    by (simp add: penv0_def sign_put_def format_value_def)
  from presign_media_type [OF b1 loads_presign_pdf n1 t1, of penv0] pdf
  have 1: "lambda_handler_presign penv0
      (JObj [(ustr ''body'',
              JStr (ustr ''{\"fileName\":\"claim.pdf\",\"fileType\":\"application/pdf\"}''))])
     = Inr \<lparr>statusCode = 400, body = JObj [(ustr ''error'', JStr (ustr ''Invalid file type''))]\<rparr>"
    by (simp add: penv0_def error_response_spec_def)
  from presign_media_type [OF b2 loads_presign_png n2 t2, of penv0] png sg
  have 2: "lambda_handler_presign penv0
      (JObj [(ustr ''body'',
              JStr (ustr ''{\"fileName\":\"vehicle_damage.png\",\"fileType\":\"image/png\"}''))])
     = Inr \<lparr>statusCode = 200,
             body = JObj [(ustr ''url'',
                             JStr (ustr ''https://claims-images-bucket/uploads/12345-vehicle_damage.png'')),
                          (ustr ''key'', JStr (ustr ''uploads/12345-vehicle_damage.png'')),
                          (ustr ''bucket'', JStr (ustr ''claims-images-bucket''))]\<rparr>"
    by (simp add: penv0_def format_value_def)
  from 1 2 show ?thesis by blast
qed

text \<open>
  Claim C8. The outcome of the handler, a record or an error, is a function of the
  model's reply alone: two invocations on the same reply, with any clock readings,
  request identifiers and object references, give the same outcome, as long as
  the CloudWatch call returns in both.
\<close>

theorem analyze_deterministic:
  assumes "\<forall>md. put_metric_data e1 (ustr ''ClaimsImageLabeler'') md = None"
    and "\<forall>md. put_metric_data e2 (ustr ''ClaimsImageLabeler'') md = None"
  shows "lambda_handler_analyze e1 raw = lambda_handler_analyze e2 raw"
proof (cases "json_loads raw")
  case (Inl e)
  then show ?thesis by (simp add: analyze_decode_error)
next
  case (Inr a)
  show ?thesis
  proof (cases "getitem a (ustr ''verdict'')")
    case (Inl e)
    with Inr show ?thesis
      by (simp add: lambda_handler_analyze_def log_entry_def Let_def)
  next
    case v: (Inr v)
    show ?thesis
    proof (cases "getitem a (ustr ''confidence'')")
      case (Inl e)
      with Inr v show ?thesis
        by (simp add: lambda_handler_analyze_def log_entry_def Let_def)
    next
      case c: (Inr c)
      with Inr v assms show ?thesis
        by (simp add: lambda_handler_analyze_def log_entry_def metric_data_def Let_def)
    qed
  qed
qed

theorem analyze_deterministic_witness:
  "lambda_handler_analyze env0 (ustr ''{\"verdict\":\"LIKELY_REAL\",\"confidence\": -0.3,\"hints\":[\"a\"]}'')
     = lambda_handler_analyze env1 (ustr ''{\"verdict\":\"LIKELY_REAL\",\"confidence\": -0.3,\"hints\":[\"a\"]}'')
   \<and> lambda_handler_analyze env0 (ustr ''I cannot analyze this image.'')
     = lambda_handler_analyze env1 (ustr ''I cannot analyze this image.'')
   \<and> request_id env0 \<noteq> request_id env1
   \<and> now env0 - start_time env0 \<noteq> now env1 - start_time env1"
proof -
  have a0: "\<forall>md. put_metric_data env0 (ustr ''ClaimsImageLabeler'') md = None"
    by (simp add: env0_accepts)
  have a1: "\<forall>md. put_metric_data env1 (ustr ''ClaimsImageLabeler'') md = None"
    by (simp add: env1_accepts)
  have "request_id env0 \<noteq> request_id env1 \<and> now env0 - start_time env0 \<noteq> now env1 - start_time env1"
    by (simp add: env0_def env1_def)
  with analyze_deterministic [OF a0 a1] show ?thesis by blast
qed

text \<open>
  Claim C9, as amended. Invoked while no file is selected, \<open>handleUpload\<close> starts no
  analysis and leaves the selected file, the result and the error as they were; the
  \<open>finally\<close> clause still runs on the early return and sets \<open>isUploading\<close> to false.
\<close>

theorem handleUpload_no_file:
  assumes "selectedFile s = None"
  shows "handleUpload s = s\<lparr>isUploading := False\<rparr>
           \<and> selectedFile (handleUpload s) = selectedFile s
           \<and> result (handleUpload s) = result s
           \<and> error (handleUpload s) = error s
           \<and> isUploading (handleUpload s) = False"
  using assms by (simp add: handleUpload_def)

theorem handleUpload_no_file_witness:
  "handleUpload \<lparr>selectedFile = None, isUploading = False, result = Some mockAnalyze,
                  error = ustr ''Error during upload or analysis.''\<rparr>
     = \<lparr>selectedFile = None, isUploading = False, result = Some mockAnalyze,
        error = ustr ''Error during upload or analysis.''\<rparr>"
  using handleUpload_no_file
          [of "\<lparr>selectedFile = None, isUploading = False, result = Some mockAnalyze,
                error = ustr ''Error during upload or analysis.''\<rparr>"]
  by simp

text \<open>
  Claim C9 as stated fails: with no file selected and \<open>isUploading\<close> true, the handler
  leaves \<open>isUploading\<close> false.
\<close>

theorem handleUpload_no_file_counterexample:
  "selectedFile \<lparr>selectedFile = None, isUploading = True, result = None, error = []\<rparr> = None
   \<and> isUploading \<lparr>selectedFile = None, isUploading = True, result = None, error = []\<rparr> = True
   \<and> isUploading
        (handleUpload \<lparr>selectedFile = None, isUploading = True, result = None, error = []\<rparr>)
       = False"
  by (simp add: handleUpload_def)

text \<open>
  Claim C10. Whatever file is selected, the upload page ends with the one record of
  \<open>mockAnalyze\<close> as its result: a summary and three hints. The record has no
  \<open>verdict\<close> and no \<open>confidence\<close> member and does not meet the Verdict contract.
\<close>

theorem mockAnalyze_constant:
  "result (handleUpload (s\<lparr>selectedFile := Some f\<rparr>)) = Some mockAnalyze
   \<and> getitem mockAnalyze (ustr ''summary'') = Inr (JStr (ustr ''No anomalies detected (mock).''))
   \<and> getitem mockAnalyze (ustr ''hints'')
       = Inr (JArr [JStr (ustr ''Lighting consistent.''), JStr (ustr ''No texture repetition.''),
                    JStr (ustr ''No tampering found.'')])
   \<and> length [JStr (ustr ''Lighting consistent.''), JStr (ustr ''No texture repetition.''),
                    JStr (ustr ''No tampering found.'')] = 3
   \<and> getitem mockAnalyze (ustr ''verdict'') = Inl (KeyError (ustr ''verdict''))
   \<and> getitem mockAnalyze (ustr ''confidence'') = Inl (KeyError (ustr ''confidence''))
   \<and> \<not> verdict_contract mockAnalyze"
proof -
  have 1: "result (handleUpload (s\<lparr>selectedFile := Some f\<rparr>)) = Some mockAnalyze"
    by (simp add: handleUpload_def)
  have 2: "getitem mockAnalyze (ustr ''summary'') = Inr (JStr (ustr ''No anomalies detected (mock).''))"
    by (simp add: mockAnalyze_def)
  have 3: "getitem mockAnalyze (ustr ''hints'')
       = Inr (JArr [JStr (ustr ''Lighting consistent.''), JStr (ustr ''No texture repetition.''),
                    JStr (ustr ''No tampering found.'')])"
    by (simp add: mockAnalyze_def)
  have 4: "getitem mockAnalyze (ustr ''verdict'') = Inl (KeyError (ustr ''verdict''))"
    by (simp add: mockAnalyze_def)
  have 5: "getitem mockAnalyze (ustr ''confidence'') = Inl (KeyError (ustr ''confidence''))"
    by (simp add: mockAnalyze_def)
  from 4 have 6: "\<not> verdict_contract mockAnalyze"
    by (simp add: verdict_contract_def verdict_ok_def)
  from 1 2 3 4 5 6 show ?thesis by simp
qed

theorem mockAnalyze_constant_witness:
  "result (handleUpload \<lparr>selectedFile = Some (File (ustr ''roof.png'') (ustr ''image/png'')),
                          isUploading = False, result = None, error = []\<rparr>) = Some mockAnalyze
   \<and> result (handleUpload \<lparr>selectedFile = Some (File (ustr ''car.jpg'') (ustr ''image/jpeg'')),
                          isUploading = False, result = None, error = ustr ''x''\<rparr>) = Some mockAnalyze
   \<and> \<not> verdict_contract mockAnalyze"
  using mockAnalyze_constant
          [where s = "\<lparr>selectedFile = None, isUploading = False, result = None, error = []\<rparr>"
             and f = "File (ustr ''roof.png'') (ustr ''image/png'')"]
        mockAnalyze_constant
          [where s = "\<lparr>selectedFile = None, isUploading = False, result = None,
                         error = ustr ''x''\<rparr>"
             and f = "File (ustr ''car.jpg'') (ustr ''image/jpeg'')"]
  by simp

end
